theory Spec2Isabelle
  imports Main "HOL-Library.Word"
begin

unbundle bit_operations_syntax

section \<open>Environment merging\<close>

text \<open>
  Go strings are byte sequences; they are modelled as \<open>string\<close> (a list of 8-bit
  characters). \<open>strings.ToLower\<close> and \<open>strings.EqualFold\<close> belong to Go's standard
  library, with its Unicode tables; they are parameters, named \<open>ToLower\<close> and \<open>EqualFold\<close>,
  of the functions that call them. \<open>os.Getenv\<close> reads the host's environment and is the
  parameter \<open>Getenv\<close>.
\<close>

text \<open>\<open>strings.Index(kv, "=")\<close>: the position of the first \<open>=\<close>; Go's \<open>-1\<close> is \<open>None\<close>.\<close>

definition Index_eq :: "string \<Rightarrow> nat option" where
  "Index_eq kv =
     (if CHR ''='' \<in> set kv then Some (length (takeWhile (\<lambda>c. c \<noteq> CHR ''='') kv)) else None)"

text \<open>
  The loop of \<open>dedupEnvCase\<close>, with its two local variables: the output slice \<open>out\<close> and
  the map \<open>saw\<close> from a key to its index in \<open>out\<close>. The index stored in \<open>saw\<close> is always
  in range, so the assignment \<open>out[dupIdx] = kv\<close> never panics.
\<close>

fun dedupEnvCase_loop ::
  "(string \<Rightarrow> string) \<Rightarrow> bool \<Rightarrow> string list \<Rightarrow> string list \<Rightarrow> (string \<rightharpoonup> nat) \<Rightarrow> string list"
  where
  "dedupEnvCase_loop ToLower caseInsensitive [] out saw = out"
| "dedupEnvCase_loop ToLower caseInsensitive (kv # env) out saw =
     (case Index_eq kv of
        None \<Rightarrow> dedupEnvCase_loop ToLower caseInsensitive env (out @ [kv]) saw
      | Some eq \<Rightarrow>
          (let k = take eq kv;
               k = (if caseInsensitive then ToLower k else k)
           in case saw k of
                Some dupIdx \<Rightarrow>
                  dedupEnvCase_loop ToLower caseInsensitive env (out[dupIdx := kv]) saw
              | None \<Rightarrow>
                  dedupEnvCase_loop ToLower caseInsensitive env (out @ [kv])
                    (saw(k \<mapsto> length out))))"

definition dedupEnvCase :: "(string \<Rightarrow> string) \<Rightarrow> bool \<Rightarrow> string list \<Rightarrow> string list" where
  "dedupEnvCase ToLower caseInsensitive env =
     dedupEnvCase_loop ToLower caseInsensitive env [] Map.empty"

text \<open>
  The loop of \<open>addCriticalEnv\<close>: does some entry with an \<open>=\<close> have a key that folds to
  \<open>SYSTEMROOT\<close>?
\<close>

fun addCriticalEnv_loop :: "(string \<Rightarrow> string \<Rightarrow> bool) \<Rightarrow> string list \<Rightarrow> bool" where
  "addCriticalEnv_loop EqualFold [] = False"
| "addCriticalEnv_loop EqualFold (kv # env) =
     (case Index_eq kv of
        None \<Rightarrow> addCriticalEnv_loop EqualFold env
      | Some eq \<Rightarrow>
          (if EqualFold (take eq kv) ''SYSTEMROOT'' then True
           else addCriticalEnv_loop EqualFold env))"

definition addCriticalEnv ::
  "(string \<Rightarrow> string \<Rightarrow> bool) \<Rightarrow> (string \<Rightarrow> string) \<Rightarrow> string list \<Rightarrow> string list" where
  "addCriticalEnv EqualFold Getenv env =
     (if addCriticalEnv_loop EqualFold env then env
      else env @ [''SYSTEMROOT='' @ Getenv ''SYSTEMROOT''])"

text \<open>
  What is known of the two library functions without their tables is their value on ASCII
  strings: there \<open>ToLower\<close> adds \<open>'a' - 'A'\<close> to the bytes \<open>A\<close>..\<open>Z\<close> and keeps the others,
  and \<open>EqualFold\<close> holds of two strings exactly when their lowered forms are the same.
  Nothing is said of strings with a byte outside ASCII.
\<close>

definition ascii_lower_char :: "char \<Rightarrow> char" where
  \<comment> \<open>adding \<open>'a' - 'A' = 32\<close> to an upper-case letter sets its bit 5\<close>
  "ascii_lower_char c =
     (if 65 \<le> (of_char c :: nat) \<and> (of_char c :: nat) \<le> 90
      then (case c of Char b0 b1 b2 b3 b4 b5 b6 b7 \<Rightarrow> Char b0 b1 b2 b3 b4 True b6 b7)
      else c)"

definition ascii_lower :: "string \<Rightarrow> string" where
  "ascii_lower s = map ascii_lower_char s"

definition ascii_string :: "string \<Rightarrow> bool" where
  "ascii_string s = list_all (\<lambda>c. (of_char c :: nat) < 128) s"

definition ascii_case_rules :: "(string \<Rightarrow> string) \<Rightarrow> (string \<Rightarrow> string \<Rightarrow> bool) \<Rightarrow> bool" where
  "ascii_case_rules ToLower EqualFold \<longleftrightarrow>
     (\<forall>s. ascii_string s \<longrightarrow> ToLower s = ascii_lower s) \<and>
     (\<forall>s t. ascii_string s \<and> ascii_string t \<longrightarrow>
        EqualFold s t = (ascii_lower s = ascii_lower t))"

text \<open>
  An entry \<open>kv\<close> is an entry for the key \<open>k\<close> when it has an \<open>=\<close> and the text before it
  folds to \<open>k\<close>.
\<close>

definition entry_for :: "(string \<Rightarrow> string \<Rightarrow> bool) \<Rightarrow> string \<Rightarrow> string \<Rightarrow> bool" where
  "entry_for EqualFold k kv =
     (case Index_eq kv of None \<Rightarrow> False | Some eq \<Rightarrow> EqualFold (take eq kv) k)"

text \<open>
  The key under which the loop of \<open>dedupEnvCase\<close> files an entry: the text before its first
  \<open>=\<close>, lowered when case is ignored; an entry without \<open>=\<close> has none. Two entries are
  duplicates for that loop when they have the same such key.
\<close>

definition entry_key :: "(string \<Rightarrow> string) \<Rightarrow> bool \<Rightarrow> string \<Rightarrow> string option" where
  "entry_key ToLower caseInsensitive kv =
     (case Index_eq kv of
        None \<Rightarrow> None
      | Some eq \<Rightarrow> Some (if caseInsensitive then ToLower (take eq kv) else take eq kv))"

text \<open>The loop invariant of \<open>dedupEnvCase\<close>: \<open>saw\<close> maps exactly the keys of the entries of \<open>out\<close>
  to their positions.\<close>

definition saw_inv ::
  "(string \<Rightarrow> string) \<Rightarrow> bool \<Rightarrow> string list \<Rightarrow> (string \<rightharpoonup> nat) \<Rightarrow> bool" where
  "saw_inv L ci out saw \<longleftrightarrow>
     (\<forall>k i. saw k = Some i \<longrightarrow> i < length out \<and> entry_key L ci (out ! i) = Some k) \<and>
     (\<forall>i k. i < length out \<longrightarrow> entry_key L ci (out ! i) = Some k \<longrightarrow> saw k = Some i)"

section \<open>Errors, files and the host platform\<close>

text \<open>
  Go's \<open>error\<close> values. The three sentinels of the package come first; \<open>ErrFileClosed\<close> is
  \<open>os.ErrClosed\<close> and \<open>ErrInvalid\<close> is \<open>os.ErrInvalid\<close>; \<open>Errno\<close> is a \<open>syscall.Errno\<close>;
  \<open>ErrorString\<close> is a value made by \<open>errors.New\<close>; \<open>ExitError\<close> is \<open>exec.ExitError\<close> with the
  exit code of its process state; \<open>Wrapped\<close> is made by \<open>fmt.Errorf\<close> with \<open>%w\<close>; \<open>Joined\<close> by
  \<open>errors.Join\<close>. A nil error is \<open>None\<close>.
\<close>

datatype error =
    ErrUnsupported
  | ErrNotPty
  | ErrClosed
  | ErrFileClosed
  | ErrInvalid
  | Errno nat
  | ErrorString string
  | ExitError int
  | Wrapped string "error option"
  | Joined "error list"

definition errors_Join :: "error option list \<Rightarrow> error option" where
  "errors_Join errs =
     (case List.map_filter (\<lambda>e. e) errs of [] \<Rightarrow> None | e # es \<Rightarrow> Some (Joined (e # es)))"

text \<open>A function that panics returns \<open>Panic\<close>; otherwise it returns its results.\<close>

datatype 'a outcome = Return 'a | Panic

type_synonym handle = "64 word"
type_synonym osfile = nat

definition InvalidHandle :: handle where
  \<comment> \<open>\<open>windows.InvalidHandle = ^Handle(0)\<close>\<close>
  "InvalidHandle = - 1"

definition S_OK :: handle where
  "S_OK = 0"

text \<open>
  The calls that reach the host, in the order they are issued, are recorded in the world,
  next to the resources the host holds for the program: the open files and the live
  pseudo-console sessions. What the host answers to a call is an argument of the function
  that makes the call.
\<close>

datatype call =
    RtlGetVersion
  | OsPipe
  | CreatePseudoConsole
  | ClosePseudoConsole handle
  | ResizePseudoConsole handle "32 word"
  | GetConsoleScreenBufferInfo handle
  | FileClose osfile
  | ProcessWait nat
  | ProcessKill nat
  | CreateProcess "string list"

record world =
  open_files :: "osfile set"
  consoles :: "handle set"
  calls :: "call list"

definition issue :: "call \<Rightarrow> world \<Rightarrow> world" where
  "issue c w = w\<lparr>calls := calls w @ [c]\<rparr>"

text \<open>\<open>os.Pipe()\<close>: the host answers with an error or with the two ends, which are then open.\<close>

definition os_Pipe ::
  "error + (osfile \<times> osfile) \<Rightarrow> world \<Rightarrow> (error + (osfile \<times> osfile)) \<times> world" where
  "os_Pipe answer w =
     (case answer of
        Inl e \<Rightarrow> (Inl e, issue OsPipe w)
      | Inr (rd, wr) \<Rightarrow>
          (Inr (rd, wr), (issue OsPipe w)\<lparr>open_files := open_files w \<union> {rd, wr}\<rparr>))"

text \<open>
  \<open>(*os.File).Close\<close>. On a nil pointer it returns \<open>os.ErrInvalid\<close>; on a file that was
  closed before it returns \<open>os.ErrClosed\<close>; otherwise the descriptor is released and the
  result is the host's answer. \<open>file_closed\<close> is its effect on the world, which is all that
  is left where the source discards the result (\<open>_ = f.Close()\<close>).
\<close>

definition os_File_Close ::
  "error option \<Rightarrow> osfile option \<Rightarrow> world \<Rightarrow> error option \<times> world" where
  "os_File_Close answer f w =
     (case f of
        None \<Rightarrow> (Some ErrInvalid, w)
      | Some fd \<Rightarrow>
          if fd \<in> open_files w
          then (answer, (issue (FileClose fd) w)\<lparr>open_files := open_files w - {fd}\<rparr>)
          else (Some ErrFileClosed, w))"

definition file_closed :: "osfile option \<Rightarrow> world \<Rightarrow> world" where
  "file_closed f w = snd (os_File_Close None f w)"

text \<open>The result of a system call made through a lazily resolved procedure: \<open>r1\<close> and the
  last error.\<close>

type_synonym syscall_result = "64 word \<times> error option"

definition winerrorFailed :: "64 word \<Rightarrow> bool" where
  \<comment> \<open>\<open>int32(r1) < 0\<close>\<close>
  "winerrorFailed r1 \<longleftrightarrow> sint (ucast r1 :: 32 word) < 0"

section \<open>The pseudo console guarded by a mutex\<close>

text \<open>
  The \<open>conPty\<close> with the fields \<open>closeMutex\<close> and \<open>closed\<close>. Every function below that
  takes the mutex holds it from its first to its last step, so one call is one step of the
  model. All references to the pair (\<open>conFile.conPty\<close>, \<open>winProc.pw\<close>) point to the
  one \<open>conPty\<close> that is passed along as state.
\<close>

record conPty =
  console :: handle
  consoler :: "osfile option"
  consolew :: "osfile option"
  pr :: "osfile option"
  pw :: "osfile option"
  closed :: bool

record OsVersionInfo =
  MajorVersion :: "32 word"
  BuildNumber :: "32 word"

text \<open>What the host answers to the calls of \<open>openPty\<close>, in their order.\<close>

record openPty_host =
  op_vsn :: OsVersionInfo
  op_pipe1 :: "error + (osfile \<times> osfile)"
  op_pipe2 :: "error + (osfile \<times> osfile)"
  op_create :: syscall_result
  op_console :: handle

definition openPty :: "openPty_host \<Rightarrow> world \<Rightarrow> (error + conPty) \<times> world" where
  "openPty host w0 =
     (let w1 = issue RtlGetVersion w0 in
      if MajorVersion (op_vsn host) < 10 \<or> BuildNumber (op_vsn host) < 17763
      then (Inl (ErrorString ''pty not supported''), w1)
      else
        case os_Pipe (op_pipe1 host) w1 of
          (Inl err, w2) \<Rightarrow> (Inl err, w2)
        | (Inr (pr_f, consolew_f), w2) \<Rightarrow>
            (case os_Pipe (op_pipe2 host) w2 of
               (Inl err, w3) \<Rightarrow>
                 (Inl err, file_closed (Some pr_f) (file_closed (Some consolew_f) w3))
             | (Inr (consoler_f, pw_f), w3) \<Rightarrow>
                 (let w4 = issue CreatePseudoConsole w3 in
                  if fst (op_create host) \<noteq> S_OK
                  then (Inl (Wrapped ''create pseudo console'' (snd (op_create host))),
                        file_closed (Some consoler_f) (file_closed (Some pw_f)
                          (file_closed (Some pr_f) (file_closed (Some consolew_f) w4))))
                  else (Inr \<lparr>console = op_console host, consoler = Some consoler_f,
                             consolew = Some consolew_f, pr = Some pr_f, pw = Some pw_f,
                             closed = False\<rparr>,
                        w4\<lparr>consoles := insert (op_console host) (consoles w4)\<rparr>))))"

text \<open>
  \<open>closeConsoleNoLock\<close>. The session is gone from the host when \<open>ClosePseudoConsole\<close> did
  not report a failure.
\<close>

definition closeConsoleNoLock ::
  "syscall_result \<Rightarrow> conPty \<Rightarrow> world \<Rightarrow> error option \<times> conPty \<times> world" where
  "closeConsoleNoLock answer p w =
     (if console p \<noteq> InvalidHandle
      then
        let w1 = issue (ClosePseudoConsole (console p)) w in
        if winerrorFailed (fst answer)
        then (Some (Wrapped ''close pseudo console'' (snd answer)), p, w1)
        else (None, p\<lparr>console := InvalidHandle\<rparr>,
              w1\<lparr>consoles := consoles w1 - {console p}\<rparr>)
      else (None, p, w))"


text \<open>\<open>conFile\<close>: \<open>cf_conPty\<close> tells whether the embedded \<open>*conPty\<close> is set.\<close>

record conFile =
  cf_conPty :: bool
  cf_master :: bool
  cf_r :: "osfile option"
  cf_w :: "osfile option"

definition ptyf :: "conPty \<Rightarrow> conFile" where
  "ptyf p = \<lparr>cf_conPty = True, cf_master = True, cf_r = pr p, cf_w = pw p\<rparr>"

definition ttyf :: "conPty \<Rightarrow> conFile" where
  "ttyf p = \<lparr>cf_conPty = False, cf_master = False, cf_r = consoler p, cf_w = consolew p\<rparr>"

text \<open>\<open>conFile.Close\<close>; the host's answers to the two file closes and to the destroy call.\<close>

definition conFile_Close ::
  "error option \<Rightarrow> error option \<Rightarrow> syscall_result \<Rightarrow> conFile \<Rightarrow> conPty \<Rightarrow> world \<Rightarrow>
   (error option \<times> conPty \<times> world) outcome" where
  "conFile_Close ans_r ans_w answer f p w =
     (let (e1, w1) = os_File_Close ans_r (cf_r f) w;
          (e2, w2) = os_File_Close ans_w (cf_w f) w1;
          err = errors_Join [e1, e2]
      in if cf_master f
         then if cf_conPty f
              then (case closeConsoleNoLock answer p w2 of
                      (e3, p3, w3) \<Rightarrow> Return (errors_Join [err, e3], p3, w3))
              else Panic
         else Return (err, p, w2))"

text \<open>The interface \<open>File\<close>: a \<open>*conFile\<close>, an \<open>*os.File\<close>, a value of some other type, or nil.\<close>

datatype File = ConFile conFile | OsFile osfile | OtherFile string | NilFile

record Winsize =
  Rows :: "16 word"
  Cols :: "16 word"
  X :: "16 word"
  Y :: "16 word"

text \<open>
  A \<open>windows.Coord\<close> read as a \<open>uint32\<close>: \<open>X\<close> is the low half and \<open>Y\<close> the high half.
  The size handed to \<open>setsize\<close> is taken to be a non-nil pointer.
\<close>

definition coord_uint32 :: "16 word \<Rightarrow> 16 word \<Rightarrow> 32 word" where
  "coord_uint32 x y = (ucast x) OR (push_bit 16 (ucast y))"

definition setsize ::
  "syscall_result \<Rightarrow> conPty \<Rightarrow> Winsize \<Rightarrow> world \<Rightarrow> error option \<times> world" where
  "setsize answer p sz w =
     (if closed p \<or> console p = InvalidHandle then (Some ErrClosed, w)
      else
        let w1 = issue (ResizePseudoConsole (console p) (coord_uint32 (Cols sz) (Rows sz))) w
        in if fst answer \<noteq> S_OK then (snd answer, w1) else (None, w1))"

definition Setsize ::
  "syscall_result \<Rightarrow> File \<Rightarrow> conPty \<Rightarrow> Winsize \<Rightarrow> world \<Rightarrow> (error option \<times> world) outcome" where
  "Setsize answer f p sz w =
     (case f of
        ConFile cf \<Rightarrow> if cf_conPty cf then Return (setsize answer p sz w) else Panic
      | _ \<Rightarrow> Return (Some ErrNotPty, w))"

text \<open>The window rectangle of a \<open>windows.ConsoleScreenBufferInfo\<close>.\<close>

record SmallRect =
  Left :: "16 word"
  Top :: "16 word"
  Right :: "16 word"
  Bottom :: "16 word"

definition getsizeFull ::
  "error + SmallRect \<Rightarrow> conPty \<Rightarrow> world \<Rightarrow> (error + Winsize) \<times> world" where
  "getsizeFull answer p w =
     (if closed p \<or> console p = InvalidHandle then (Inl ErrClosed, w)
      else
        let w1 = issue (GetConsoleScreenBufferInfo (console p)) w in
        case answer of
          Inl err \<Rightarrow> (Inl err, w1)
        | Inr window \<Rightarrow>
            (Inr \<lparr>Rows = Bottom window - Top window + 1,
                  Cols = Right window - Left window + 1, X = 0, Y = 0\<rparr>, w1))"

definition GetsizeFull ::
  "error + SmallRect \<Rightarrow> File \<Rightarrow> conPty \<Rightarrow> world \<Rightarrow> ((error + Winsize) \<times> world) outcome" where
  "GetsizeFull answer f p w =
     (case f of
        ConFile cf \<Rightarrow> if cf_conPty cf then Return (getsizeFull answer p w) else Panic
      | _ \<Rightarrow> Return (Inl ErrUnsupported, w))"

section \<open>The process monitor and the cancellation watcher\<close>

text \<open>
  \<open>winProc\<close>: \<open>cmdDone\<close> tells whether the channel of that name has been closed. The
  pointer \<open>pw\<close> is the pair passed along as state.
\<close>

record winProc =
  cmdDone :: bool
  cmdErr :: "error option"
  proc :: nat

text \<open>
  \<open>(*os.Process).Wait\<close> answers with an error or with the process state, of which the exit
  code is kept; \<open>state.Success()\<close> holds when the exit code is zero.
\<close>

definition waitInternal ::
  "error + int \<Rightarrow> syscall_result \<Rightarrow> winProc \<Rightarrow> conPty \<Rightarrow> world \<Rightarrow> winProc \<times> conPty \<times> world" where
  "waitInternal wait_answer close_answer p pty w =
     (let w1 = issue (ProcessWait (proc p)) w;
          p1 = (case wait_answer of
                  Inl err \<Rightarrow> p\<lparr>cmdErr := Some err\<rparr>
                | Inr code \<Rightarrow> if code \<noteq> 0 then p\<lparr>cmdErr := Some (ExitError code)\<rparr> else p)
      in case closeConsoleNoLock close_answer pty w1 of
           (err, pty2, w2) \<Rightarrow>
             (let p2 = (if err \<noteq> None \<and> cmdErr p1 = None then p1\<lparr>cmdErr := err\<rparr> else p1)
              in (p2\<lparr>cmdDone := True\<rparr>, pty2, w2)))"

text \<open>\<open>Wait\<close> receives from \<open>cmdDone\<close>: while the channel is open the caller is blocked, which
  is \<open>None\<close>.\<close>

definition winProc_Wait :: "winProc \<Rightarrow> error option option" where
  "winProc_Wait p = (if cmdDone p then Some (cmdErr p) else None)"

definition winProc_Kill :: "error option \<Rightarrow> winProc \<Rightarrow> world \<Rightarrow> error option \<times> world" where
  "winProc_Kill answer p w = (answer, issue (ProcessKill (proc p)) w)"

text \<open>
  \<open>killOnContext\<close> is a \<open>select\<close> over \<open>cmdDone\<close> and the context's \<open>Done\<close> channel: it takes
  a branch whose channel is ready, either of them when both are, and stays blocked (no step)
  when neither is. \<open>ctx_done\<close> tells whether the cancellation signal has fired.
\<close>

inductive killOnContext ::
  "error option \<Rightarrow> bool \<Rightarrow> winProc \<times> conPty \<times> world \<Rightarrow> winProc \<times> conPty \<times> world \<Rightarrow> bool" where
  process_done: "cmdDone p \<Longrightarrow> killOnContext answer ctx_done (p, pty, w) (p, pty, w)"
| cancelled: "ctx_done \<Longrightarrow>
     killOnContext answer ctx_done (p, pty, w) (p, pty, snd (winProc_Kill answer p w))"

code_pred killOnContext .

text \<open>The number of \<open>ClosePseudoConsole\<close> calls, and of version probes, issued so far.\<close>

fun is_destroy :: "call \<Rightarrow> bool" where
  "is_destroy (ClosePseudoConsole h) = True"
| "is_destroy _ = False"

definition destroy_calls :: "world \<Rightarrow> nat" where
  "destroy_calls w = length (filter is_destroy (calls w))"

definition probe_calls :: "world \<Rightarrow> nat" where
  "probe_calls w = count_list (calls w) RtlGetVersion"

text \<open>A host of build 19045 on which every call of \<open>openPty\<close> succeeds, and a world without
  resources.\<close>

definition host_ok :: openPty_host where
  "host_ok = \<lparr>op_vsn = \<lparr>MajorVersion = 10, BuildNumber = 19045\<rparr>,
              op_pipe1 = Inr (3, 4), op_pipe2 = Inr (5, 6), op_create = (0, None),
              op_console = 16\<rparr>"

definition world0 :: world where
  "world0 = \<lparr>open_files = {}, consoles = {}, calls = []\<rparr>"

section \<open>The pseudo console with a closer function\<close>

text \<open>
  The \<open>conPty\<close> with the fields \<open>handle\<close>, \<open>r\<close>, \<open>w\<close>, \<open>closer\<close> and \<open>name\<close>, its
  allocator \<open>open\<close> and its closers. The field \<open>closer\<close> holds one of two functions.
\<close>

datatype closer = PtyCloser | TtyCloser

record handlePty =
  hp_handle :: handle
  hp_r :: osfile
  hp_w :: osfile
  hp_closer :: closer
  hp_name :: string

text \<open>
  \<open>procCreatePseudoConsole\<close>: \<open>find_err\<close> is the result of \<open>createPseudoConsole.Find()\<close>, \<open>r0\<close>
  the first result of the call and \<open>h\<close> the handle the host writes on success.
\<close>

definition procCreatePseudoConsole ::
  "error option \<Rightarrow> 64 word \<Rightarrow> handle \<Rightarrow> world \<Rightarrow> error option \<times> world" where
  "procCreatePseudoConsole find_err r0 h w =
     (case find_err of
        Some err \<Rightarrow> (Some err, w)
      | None \<Rightarrow>
          let w1 = issue CreatePseudoConsole w in
          if sint (ucast r0 :: 32 word) < 0
          then (Some (Errno (unat (if r0 AND 0x1fff0000 = 0x00070000 then r0 AND 0xffff else r0))),
                w1)
          else (None, w1\<lparr>consoles := insert h (consoles w1)\<rparr>))"

text \<open>What the host answers to the calls of \<open>open\<close>, in their order.\<close>

record open_host =
  oh_pipe1 :: "error + (osfile \<times> osfile)"
  oh_pipe2 :: "error + (osfile \<times> osfile)"
  oh_find :: "error option"
  oh_r0 :: "64 word"
  oh_console :: handle
  oh_closeW :: "error option"
  oh_closeR :: "error option"

definition open_closer ::
  "open_host \<Rightarrow> world \<Rightarrow> (error + (handlePty \<times> handlePty)) \<times> world" where
  "open_closer host w0 =
     (case os_Pipe (oh_pipe1 host) w0 of
        (Inl err, w1) \<Rightarrow> (Inl err, w1)
      | (Inr (pr_f, consoleW), w1) \<Rightarrow>
          (case os_Pipe (oh_pipe2 host) w1 of
             (Inl err, w2) \<Rightarrow>
               (Inl err, file_closed (Some pr_f) (file_closed (Some consoleW) w2))
           | (Inr (consoleR, pw_f), w2) \<Rightarrow>
               (case procCreatePseudoConsole (oh_find host) (oh_r0 host) (oh_console host) w2 of
                  (Some err, w3) \<Rightarrow>
                    (Inl err,
                     file_closed (Some consoleR) (file_closed (Some pw_f)
                       (file_closed (Some pr_f) (file_closed (Some consoleW) w3))))
                | (None, w3) \<Rightarrow>
                    (case os_File_Close (oh_closeW host) (Some consoleW) w3 of
                       (Some err, w4) \<Rightarrow>
                         (Inl (Wrapped ''failed to close pseudo console handle'' (Some err)), w4)
                     | (None, w4) \<Rightarrow>
                         (case os_File_Close (oh_closeR host) (Some consoleR) w4 of
                            (Some err, w5) \<Rightarrow>
                              (Inl (Wrapped ''failed to close pseudo console handle'' (Some err)),
                               w5)
                          | (None, w5) \<Rightarrow>
                              (Inr (\<lparr>hp_handle = oh_console host, hp_r = pr_f, hp_w = pw_f,
                                     hp_closer = PtyCloser, hp_name = []\<rparr>,
                                    \<lparr>hp_handle = oh_console host, hp_r = consoleR,
                                     hp_w = consoleW, hp_closer = TtyCloser,
                                     hp_name = ''windows-pty''\<rparr>),
                               w5))))))"

text \<open>
  \<open>winPtyConsoleCloser\<close>: the answer holds the result of \<open>closePseudoConsole.Find()\<close> and the
  error returned by the call.
\<close>

definition winPtyConsoleCloser ::
  "error option \<times> error option \<Rightarrow> handlePty \<Rightarrow> world \<Rightarrow> error option \<times> handlePty \<times> world" where
  "winPtyConsoleCloser answer p w =
     (if hp_handle p \<noteq> InvalidHandle
      then
        case fst answer of
          Some err \<Rightarrow> (Some err, p, w)
        | None \<Rightarrow>
            (snd answer, p\<lparr>hp_handle := InvalidHandle\<rparr>,
             (issue (ClosePseudoConsole (hp_handle p)) w)\<lparr>consoles := consoles w - {hp_handle p}\<rparr>)
      else (None, p, w))"

definition winPtyCloser ::
  "error option \<times> error option \<Rightarrow> handlePty \<Rightarrow> world \<Rightarrow> error option \<times> handlePty \<times> world" where
  "winPtyCloser answer p w =
     winPtyConsoleCloser answer p (file_closed (Some (hp_w p)) (file_closed (Some (hp_r p)) w))"

definition winTtyCloser ::
  "error option \<Rightarrow> handlePty \<Rightarrow> world \<Rightarrow> error option \<times> handlePty \<times> world" where
  "winTtyCloser answer t w =
     (case os_File_Close answer (Some (hp_w t)) (file_closed (Some (hp_r t)) w) of
        (err, w1) \<Rightarrow> (err, t, w1))"

definition handlePty_Close ::
  "error option \<times> error option \<Rightarrow> handlePty \<Rightarrow> world \<Rightarrow> error option \<times> handlePty \<times> world" where
  "handlePty_Close answer p w =
     (case hp_closer p of
        PtyCloser \<Rightarrow> winPtyCloser answer p w
      | TtyCloser \<Rightarrow> winTtyCloser (snd answer) p w)"

text \<open>\<open>windowsProcess\<close> and its monitor \<open>waitProcess\<close>.\<close>

record windowsProcess =
  wp_cmdDone :: bool
  wp_cmdErr :: "error option"
  wp_proc :: nat

definition waitProcess ::
  "error + int \<Rightarrow> error option \<times> error option \<Rightarrow> windowsProcess \<Rightarrow> handlePty \<Rightarrow> world \<Rightarrow>
   windowsProcess \<times> handlePty \<times> world" where
  "waitProcess wait_answer close_answer p pty w =
     (let w1 = issue (ProcessWait (wp_proc p)) w;
          p1 = (case wait_answer of
                  Inl err \<Rightarrow> p\<lparr>wp_cmdErr := Some err\<rparr>
                | Inr code \<Rightarrow> if code \<noteq> 0 then p\<lparr>wp_cmdErr := Some (ExitError code)\<rparr> else p)
      in case winPtyConsoleCloser close_answer pty w1 of
           (err, pty2, w2) \<Rightarrow>
             (let p2 = (if err \<noteq> None \<and> wp_cmdErr p1 = None then p1\<lparr>wp_cmdErr := err\<rparr> else p1)
              in (p2\<lparr>wp_cmdDone := True\<rparr>, pty2, w2)))"

definition windowsProcess_Wait :: "windowsProcess \<Rightarrow> error option option" where
  "windowsProcess_Wait p = (if wp_cmdDone p then Some (wp_cmdErr p) else None)"

definition wait_calls :: "world \<Rightarrow> nat \<Rightarrow> nat" where
  "wait_calls w pid = count_list (calls w) (ProcessWait pid)"

section \<open>Callers and example inputs\<close>


text \<open>The pair and the world that \<open>openPty\<close> makes on \<open>host_ok\<close> from \<open>world0\<close>, and a
  destroy call that reports \<open>E_FAIL\<close>.\<close>

definition pair0 :: conPty where
  "pair0 = \<lparr>console = 16, consoler = Some 5, consolew = Some 4, pr = Some 3, pw = Some 6,
            closed = False\<rparr>"

definition world1 :: world where
  "world1 = \<lparr>open_files = {3, 4, 5, 6}, consoles = {16},
             calls = [RtlGetVersion, OsPipe, OsPipe, CreatePseudoConsole]\<rparr>"




section \<open>Starting a command\<close>

text \<open>
  The fields of \<open>syscall.SysProcAttr\<close> that the launchers read, \<open>exec.Cmd\<close> and the
  package's own \<open>Cmd\<close>. A nil slice or pointer is \<open>None\<close>; \<open>c_Context\<close> tells whether the
  context is set; a started process is known by its process id.
\<close>

record SysProcAttr =
  HideWindow :: bool
  CmdLine :: string
  CreationFlags :: "32 word"
  Token :: "64 word"

definition SysProcAttr_zero :: SysProcAttr where
  "SysProcAttr_zero = \<lparr>HideWindow = False, CmdLine = [], CreationFlags = 0, Token = 0\<rparr>"

record exec_Cmd =
  ec_Path :: string
  ec_Args :: "string list"
  ec_Env :: "string list option"
  ec_Dir :: string
  ec_Process :: "nat option"
  ec_SysProcAttr :: "SysProcAttr option"

record Cmd =
  c_Context :: bool
  c_Path :: string
  c_Args :: "string list"
  c_Env :: "string list"
  c_Dir :: string
  c_Process :: "nat option"
  c_SysProcAttr :: "SysProcAttr option"

definition EINVAL :: error where
  \<comment> \<open>\<open>syscall.EINVAL\<close>; its number plays no role\<close>
  "EINVAL = ErrorString ''invalid argument''"

text \<open>\<open>UTF16PtrFromString\<close> fails on a string with a NUL byte.\<close>

definition UTF16PtrFromString :: "string \<Rightarrow> error option" where
  "UTF16PtrFromString s = (if CHR 0x00 \<in> set s then Some EINVAL else None)"

text \<open>
  What the host and the helpers outside these sources answer during
  \<open>windowExecCmd.Start\<close>, in the order of the calls, and the library functions \<open>os.Getenv\<close>,
  \<open>strings.ToLower\<close> and \<open>strings.EqualFold\<close> that it reaches. A new process is known by
  its id.
\<close>

record Start_host =
  sh_execEnvDefault :: "error + string list"
  sh_lookExtensions :: "error + string"
  sh_joinExeDirAndFName :: "error + string"
  sh_makeCmdLine :: string
  sh_NewProcThreadAttributeList :: "error option"
  sh_Update :: "error option"
  sh_CreateProcess :: "error + nat"
  sh_FindProcess :: "error option"
  sh_Getenv :: "string \<Rightarrow> string"
  sh_ToLower :: "string \<Rightarrow> string"
  sh_EqualFold :: "string \<Rightarrow> string \<Rightarrow> bool"

record windowExecCmd =
  we_cmd :: exec_Cmd
  we_waitCalled :: bool
  we_conPty :: bool

text \<open>
  \<open>windowExecCmd.Start\<close>. It returns its error, the command, the \<open>windowsProcess\<close> whose
  monitor it has spawned, and the world. The environment handed to \<open>createEnvBlock\<close> is
  recorded with the call that creates the process.
\<close>

definition windowExecCmd_Start ::
  "Start_host \<Rightarrow> windowExecCmd \<Rightarrow> world \<Rightarrow>
   error option \<times> windowExecCmd \<times> windowsProcess option \<times> world" where
  "windowExecCmd_Start host c w =
     (if ec_Process (we_cmd c) \<noteq> None
      then (Some (ErrorString ''exec: already started''), c, None, w)
      else
        let argv0 = ec_Path (we_cmd c);
            sys = (case ec_SysProcAttr (we_cmd c) of None \<Rightarrow> SysProcAttr_zero | Some a \<Rightarrow> a)
        in
        case (if ec_Env (we_cmd c) = None
              then (case sh_execEnvDefault host of
                      Inl err \<Rightarrow> Inl err
                    | Inr env \<Rightarrow> Inr (c\<lparr>we_cmd := (we_cmd c)\<lparr>ec_Env := Some env\<rparr>\<rparr>))
              else Inr c) of
          Inl err \<Rightarrow> (Some err, c, None, w)
        | Inr c1 \<Rightarrow>
        (case sh_lookExtensions host of
          Inl err \<Rightarrow> (Some err, c1, None, w)
        | Inr lp \<Rightarrow>
        (let c2 = c1\<lparr>we_cmd := (we_cmd c1)\<lparr>ec_Path := lp\<rparr>\<rparr> in
         case (if ec_Dir (we_cmd c2) \<noteq> [] then sh_joinExeDirAndFName host else Inr argv0) of
          Inl err \<Rightarrow> (Some err, c2, None, w)
        | Inr argv0' \<Rightarrow>
        (case UTF16PtrFromString argv0' of
          Some err \<Rightarrow> (Some err, c2, None, w)
        | None \<Rightarrow>
        (let cmdline = (if CmdLine sys \<noteq> [] then CmdLine sys else sh_makeCmdLine host) in
         case (if cmdline \<noteq> [] then UTF16PtrFromString cmdline else None) of
          Some err \<Rightarrow> (Some err, c2, None, w)
        | None \<Rightarrow>
        (case (if ec_Dir (we_cmd c2) \<noteq> [] then UTF16PtrFromString (ec_Dir (we_cmd c2))
               else None) of
          Some err \<Rightarrow> (Some err, c2, None, w)
        | None \<Rightarrow>
        (case sh_NewProcThreadAttributeList host of
          Some err \<Rightarrow>
            (Some (Wrapped ''failed to initialize process thread attribute list'' (Some err)),
             c2, None, w)
        | None \<Rightarrow>
        (case (if we_conPty c2 then sh_Update host else None) of
          Some err \<Rightarrow>
            (Some (Wrapped ''failed to update proc thread attributes for pseudo console''
                     (Some err)), c2, None, w)
        | None \<Rightarrow>
        (let w1 = issue (CreateProcess (addCriticalEnv (sh_EqualFold host) (sh_Getenv host)
                           (dedupEnvCase (sh_ToLower host) True (case ec_Env (we_cmd c2) of None \<Rightarrow> []
                                               | Some env \<Rightarrow> env)))) w in
         case sh_CreateProcess host of
          Inl err \<Rightarrow> (Some err, c2, None, w1)
        | Inr pid \<Rightarrow>
        (case sh_FindProcess host of
          Some err \<Rightarrow> (Some err, c2, None, w1)
        | None \<Rightarrow>
            (None, c2\<lparr>we_cmd := (we_cmd c2)\<lparr>ec_Process := Some pid\<rparr>\<rparr>,
             Some \<lparr>wp_cmdDone = False, wp_cmdErr = None, wp_proc = pid\<rparr>, w1)))))))))))"

text \<open>
  A \<open>StartOption\<close> receives the pty and may act on it and on the host. The loop over the
  options stops at the first error.
\<close>

type_synonym StartOption = "handlePty \<Rightarrow> world \<Rightarrow> error option \<times> handlePty \<times> world"

fun apply_opts :: "StartOption list \<Rightarrow> handlePty \<Rightarrow> world \<Rightarrow> error option \<times> handlePty \<times> world" where
  "apply_opts [] pty w = (None, pty, w)"
| "apply_opts (opt # opts) pty w =
     (case opt pty w of
        (Some err, pty1, w1) \<Rightarrow> (Some err, pty1, w1)
      | (None, pty1, w1) \<Rightarrow> apply_opts opts pty1 w1)"

text \<open>
  \<open>start\<close> on Windows. The result is the returned \<open>File\<close> (the pty, or nil), the
  returned error and the world. The deferred function runs on the way out of every return
  that comes after its \<open>defer\<close> statement, and closes the pty when \<open>err\<close> is set.
\<close>

definition start_windows ::
  "open_host \<Rightarrow> Start_host \<Rightarrow> error option \<times> error option \<Rightarrow> exec_Cmd \<Rightarrow> StartOption list \<Rightarrow>
   world \<Rightarrow> (handlePty option \<times> error option) \<times> world" where
  "start_windows ohost shost canswer c opts w0 =
     (case open_closer ohost w0 of
        (Inl err, w1) \<Rightarrow> ((None, Some err), w1)
      | (Inr (pty, tty), w1) \<Rightarrow>
          (case apply_opts opts pty w1 of
             (Some err, pty1, w2) \<Rightarrow> ((Some pty1, Some err), w2)
           | (None, pty1, w2) \<Rightarrow>
               (let c1 = (if ec_SysProcAttr c = None
                          then c\<lparr>ec_SysProcAttr := Some SysProcAttr_zero\<rparr> else c);
                    wc = \<lparr>we_cmd = c1, we_waitCalled = False, we_conPty = True\<rparr>
                in case windowExecCmd_Start shost wc w2 of
                     (Some err, wc1, started, w3) \<Rightarrow>
                       (case handlePty_Close canswer pty1 w3 of
                          (cerr, pty2, w4) \<Rightarrow> ((None, Some err), w4))
                   | (None, wc1, started, w3) \<Rightarrow> ((Some pty1, None), w3))))"

text \<open>
  Modelled from the spec: the allocator \<open>open\<close> of the device-backed platform, which is not
  among the sources. It opens the terminal-pair device once and derives both views from it;
  when the platform call fails it returns the error and has opened nothing.
\<close>

definition open_unix ::
  "error + (osfile \<times> osfile) \<Rightarrow> world \<Rightarrow> (error + (osfile \<times> osfile)) \<times> world" where
  "open_unix answer w =
     (case answer of
        Inl err \<Rightarrow> (Inl err, w)
      | Inr (pty, tty) \<Rightarrow> (Inr (pty, tty), w\<lparr>open_files := open_files w \<union> {pty, tty}\<rparr>))"

text \<open>
  \<open>start\<close> for the platforms other than Windows. \<open>exec.Cmd.Start\<close> answers with an error
  or nil; the assignments to the fields of \<open>c\<close> only prepare its argument. The deferred
  \<open>tty.Close()\<close> runs on the way out of every return that comes after its \<open>defer\<close>
  statement.
\<close>

record unix_host =
  uh_open :: "error + (osfile \<times> osfile)"
  uh_Start :: "error option"

type_synonym StartOption_unix = "osfile \<Rightarrow> world \<Rightarrow> error option \<times> world"

fun apply_opts_unix :: "StartOption_unix list \<Rightarrow> osfile \<Rightarrow> world \<Rightarrow> error option \<times> world" where
  "apply_opts_unix [] pty w = (None, w)"
| "apply_opts_unix (opt # opts) pty w =
     (case opt pty w of
        (Some err, w1) \<Rightarrow> (Some err, w1)
      | (None, w1) \<Rightarrow> apply_opts_unix opts pty w1)"

definition start_unix ::
  "unix_host \<Rightarrow> StartOption_unix list \<Rightarrow> world \<Rightarrow> (osfile option \<times> error option) \<times> world" where
  "start_unix host opts w0 =
     (case open_unix (uh_open host) w0 of
        (Inl err, w1) \<Rightarrow> ((None, Some err), w1)
      | (Inr (pty, tty), w1) \<Rightarrow>
          (case apply_opts_unix opts pty w1 of
             (Some err, w2) \<Rightarrow> ((Some pty, Some err), w2)
           | (None, w2) \<Rightarrow>
               (case uh_Start host of
                  Some err \<Rightarrow>
                    ((None, Some err), file_closed (Some tty) (file_closed (Some pty) w2))
                | None \<Rightarrow> ((Some pty, None), file_closed (Some tty) w2))))"

text \<open>
  What the host answers during \<open>conPty.start\<close>, in the order of the calls, and the library
  functions \<open>os.Getenv\<close>, \<open>strings.ToLower\<close> and \<open>strings.EqualFold\<close> that it reaches.
\<close>

record conPty_start_host =
  cs_LookPath :: "error + string"
  cs_ComposeCommandLine :: string
  cs_Getwd :: "error + string"
  cs_NewProcThreadAttributeList :: "error option"
  cs_Update :: "error option"
  cs_CreateProcess :: "error + nat"
  cs_FindProcess :: "error option"
  cs_Getenv :: "string \<Rightarrow> string"
  cs_ToLower :: "string \<Rightarrow> string"
  cs_EqualFold :: "string \<Rightarrow> string \<Rightarrow> bool"

text \<open>
  \<open>conPty.start\<close>. It returns its error, the command, the \<open>winProc\<close> whose monitor it has
  spawned, whether it has spawned the cancellation watcher, and the world. None of its steps
  closes a file or the console.
\<close>

definition conPty_start ::
  "conPty_start_host \<Rightarrow> conPty \<Rightarrow> Cmd \<Rightarrow> world \<Rightarrow>
   error option \<times> Cmd \<times> winProc option \<times> bool \<times> world" where
  "conPty_start host p cmd w =
     (case cs_LookPath host of
        Inl err \<Rightarrow> (Some err, cmd, None, False, w)
      | Inr fullPath \<Rightarrow>
      (case UTF16PtrFromString fullPath of
        Some err \<Rightarrow> (Some err, cmd, None, False, w)
      | None \<Rightarrow>
      (case UTF16PtrFromString (cs_ComposeCommandLine host) of
        Some err \<Rightarrow> (Some err, cmd, None, False, w)
      | None \<Rightarrow>
      (case (if c_Dir cmd = []
             then (case cs_Getwd host of
                     Inl err \<Rightarrow> Inl (err, cmd\<lparr>c_Dir := []\<rparr>)
                   | Inr wd \<Rightarrow> Inr (cmd\<lparr>c_Dir := wd\<rparr>))
             else Inr cmd) of
        Inl (err, cmd1) \<Rightarrow> (Some err, cmd1, None, False, w)
      | Inr cmd1 \<Rightarrow>
      (case UTF16PtrFromString (c_Dir cmd1) of
        Some err \<Rightarrow> (Some err, cmd1, None, False, w)
      | None \<Rightarrow>
      (case cs_NewProcThreadAttributeList host of
        Some err \<Rightarrow> (Some err, cmd1, None, False, w)
      | None \<Rightarrow>
      (case cs_Update host of
        Some err \<Rightarrow> (Some err, cmd1, None, False, w)
      | None \<Rightarrow>
      (let w1 = issue (CreateProcess (addCriticalEnv (cs_EqualFold host) (cs_Getenv host)
                         (dedupEnvCase (cs_ToLower host) True (c_Env cmd1)))) w in
       case cs_CreateProcess host of
        Inl err \<Rightarrow> (Some err, cmd1, None, False, w1)
      | Inr pid \<Rightarrow>
      (case cs_FindProcess host of
        Some err \<Rightarrow> (Some (Wrapped ''find process'' (Some err)), cmd1, None, False, w1)
      | None \<Rightarrow>
          (None, cmd1\<lparr>c_Process := Some pid\<rparr>,
           Some \<lparr>cmdDone = False, cmdErr = None, proc = pid\<rparr>, c_Context cmd1, w1))))))))))"

text \<open>
  \<open>StartWithAttrs\<close>. The deferred function tests the variable \<open>err\<close> that was declared
  with \<open>winPty\<close>; it is nil after \<open>openPty\<close> succeeded and no later statement assigns to it,
  since \<open>if err := setsize(...)\<close> and \<open>if err := winPty.start(cmd)\<close> declare variables of
  their own. The deferred function is \<open>StartWithAttrs_deferred\<close>, applied to that variable.
\<close>

definition StartWithAttrs_deferred ::
  "error option \<Rightarrow> error option \<Rightarrow> error option \<Rightarrow> syscall_result \<Rightarrow> conFile \<Rightarrow> conPty \<Rightarrow> world \<Rightarrow>
   (conPty \<times> world) outcome" where
  "StartWithAttrs_deferred err ans_r ans_w canswer f p w =
     (if err \<noteq> None
      then (case conFile_Close ans_r ans_w canswer f p w of
              Return (cerr, p1, w1) \<Rightarrow> Return (p1, w1)
            | Panic \<Rightarrow> Panic)
      else Return (p, w))"

definition StartWithAttrs ::
  "openPty_host \<Rightarrow> syscall_result \<Rightarrow> conPty_start_host \<Rightarrow>
   error option \<Rightarrow> error option \<Rightarrow> syscall_result \<Rightarrow> Cmd \<Rightarrow> Winsize option \<Rightarrow> world \<Rightarrow>
   ((conFile option \<times> error option) \<times> conPty option \<times> world) outcome" where
  "StartWithAttrs ohost sanswer shost ans_r ans_w canswer cmd sz w0 =
     (case openPty ohost w0 of
        (Inl err0, w1) \<Rightarrow> Return ((None, Some err0), None, w1)
      | (Inr winPty, w1) \<Rightarrow>
          (let err = None;
               f = ptyf winPty;
               leave = (\<lambda>result p w.
                  case StartWithAttrs_deferred err ans_r ans_w canswer f p w of
                    Return (p', w') \<Rightarrow> Return (result, Some p', w')
                  | Panic \<Rightarrow> Panic)
           in case (case sz of None \<Rightarrow> (None, w1) | Some s \<Rightarrow> setsize sanswer winPty s w1) of
                (Some err1, w2) \<Rightarrow> leave (None, Some err1) winPty w2
              | (None, w2) \<Rightarrow>
                  (case conPty_start shost winPty cmd w2 of
                     (Some err2, cmd1, started, watcher, w3) \<Rightarrow> leave (None, Some err2) winPty w3
                   | (None, cmd1, started, watcher, w3) \<Rightarrow> leave (Some f, None) winPty w3)))"

text \<open>Example inputs: hosts on which every call succeeds, or all but one.\<close>

definition open_host_ok :: open_host where
  "open_host_ok = \<lparr>oh_pipe1 = Inr (3, 4), oh_pipe2 = Inr (5, 6), oh_find = None, oh_r0 = 0,
                   oh_console = 16, oh_closeW = None, oh_closeR = None\<rparr>"

definition open_host_closeW_fails :: open_host where
  "open_host_closeW_fails = open_host_ok\<lparr>oh_closeW := Some (Errno 6)\<rparr>"

definition hpty0 :: handlePty where
  "hpty0 = \<lparr>hp_handle = 16, hp_r = 3, hp_w = 6, hp_closer = PtyCloser, hp_name = []\<rparr>"

definition world2 :: world where
  "world2 = \<lparr>open_files = {3, 6}, consoles = {16},
             calls = [OsPipe, OsPipe, CreatePseudoConsole, FileClose 4, FileClose 5]\<rparr>"

definition proc0 :: windowsProcess where
  "proc0 = \<lparr>wp_cmdDone = False, wp_cmdErr = None, wp_proc = 7\<rparr>"

definition failing_option :: StartOption where
  "failing_option pty w = (Some (ErrorString ''bad size''), pty, w)"

definition Start_host_ok :: Start_host where
  "Start_host_ok = \<lparr>sh_execEnvDefault = Inr [], sh_lookExtensions = Inr ''cmd.exe'',
     sh_joinExeDirAndFName = Inr ''cmd.exe'', sh_makeCmdLine = ''cmd.exe'',
     sh_NewProcThreadAttributeList = None, sh_Update = None, sh_CreateProcess = Inr 7,
     sh_FindProcess = None, sh_Getenv = (\<lambda>k. []), sh_ToLower = ascii_lower,
     sh_EqualFold = (\<lambda>s t. ascii_lower s = ascii_lower t)\<rparr>"

definition cmd0 :: exec_Cmd where
  "cmd0 = \<lparr>ec_Path = ''cmd.exe'', ec_Args = [''cmd.exe''], ec_Env = Some [], ec_Dir = [],
           ec_Process = None, ec_SysProcAttr = None\<rparr>"

definition htty0 :: handlePty where
  "htty0 = \<lparr>hp_handle = 16, hp_r = 5, hp_w = 4, hp_closer = TtyCloser, hp_name = ''windows-pty''\<rparr>"

definition Start_host_spawn_fails :: Start_host where
  "Start_host_spawn_fails = Start_host_ok\<lparr>sh_CreateProcess := Inl (Errno 2)\<rparr>"

definition wcmd0 :: windowExecCmd where
  "wcmd0 = \<lparr>we_cmd = cmd0\<lparr>ec_SysProcAttr := Some SysProcAttr_zero\<rparr>, we_waitCalled = False,
            we_conPty = True\<rparr>"

definition unix_host_spawn_fails :: unix_host where
  "unix_host_spawn_fails = \<lparr>uh_open = Inr (3, 4), uh_Start = Some (Errno 2)\<rparr>"

definition world3 :: world where
  "world3 = \<lparr>open_files = {3, 4}, consoles = {}, calls = []\<rparr>"

definition failing_option_unix :: StartOption_unix where
  "failing_option_unix pty w = (Some (ErrorString ''bad size''), w)"

definition open_host_closeR_fails :: open_host where
  "open_host_closeR_fails = open_host_ok\<lparr>oh_closeR := Some (Errno 6)\<rparr>"

text \<open>A caller that calls \<open>Close\<close> twice on the pty file of the pair, that is
  \<open>conFile.Close\<close>.\<close>

definition conFile_Close_twice ::
  "syscall_result \<Rightarrow> syscall_result \<Rightarrow> conPty \<Rightarrow> world \<Rightarrow>
   (error option \<times> error option \<times> conPty \<times> world) outcome" where
  "conFile_Close_twice answer1 answer2 p w =
     (case conFile_Close None None answer1 (ptyf p) p w of
        Panic \<Rightarrow> Panic
      | Return (err1, p1, w1) \<Rightarrow>
          (case conFile_Close None None answer2 (ptyf p) p1 w1 of
             Panic \<Rightarrow> Panic
           | Return (err2, p2, w2) \<Rightarrow> Return (err1, err2, p2, w2)))"

definition cmd1 :: Cmd where
  "cmd1 = \<lparr>c_Context = True, c_Path = ''cmd.exe'', c_Args = [''cmd.exe''], c_Env = [],
           c_Dir = [], c_Process = None, c_SysProcAttr = None\<rparr>"

definition conPty_start_host_ok :: conPty_start_host where
  "conPty_start_host_ok = \<lparr>cs_LookPath = Inr ''cmd.exe'', cs_ComposeCommandLine = ''cmd.exe'',
     cs_Getwd = Inr ''C:/'', cs_NewProcThreadAttributeList = None, cs_Update = None,
     cs_CreateProcess = Inr 7, cs_FindProcess = None, cs_Getenv = (\<lambda>k. []),
     cs_ToLower = ascii_lower, cs_EqualFold = (\<lambda>s t. ascii_lower s = ascii_lower t)\<rparr>"

section \<open>Interleaved runs on one pair\<close>

text \<open>
  Goroutines that work on the same pair are threads that take turns, one instruction at a
  time. An instruction is one statement of the source, or the test of an \<open>if\<close>:
  \<open>Lock\<close> and \<open>Unlock\<close> act on \<open>closeMutex\<close>, and \<open>Lock\<close> can be taken only while no thread
  holds the mutex;
  \<open>Guard_setsize\<close> is \<open>if p.closed || p.console == windows.InvalidHandle { return ErrClosed }\<close>;
  \<open>Call_Resize\<close> is the call of \<open>ResizePseudoConsole\<close> on \<open>p.console\<close> and the return that
  follows it;
  \<open>Guard_closed\<close> is \<open>if p.closed { return nil }\<close>;
  \<open>Guard_console\<close>, \<open>Call_Destroy\<close> and \<open>Set_InvalidHandle\<close> are the body of
  \<open>closeConsoleNoLock\<close>: the test \<open>p.console != windows.InvalidHandle\<close>, which skips the
  other two when it fails, the call of \<open>ClosePseudoConsole\<close> on \<open>p.console\<close> with the return of
  the error when the call reports a failure, and \<open>p.console = windows.InvalidHandle\<close>;
  \<open>Set_closed\<close> is \<open>p.closed = true\<close>; \<open>File_Close\<close> closes a file.
  A \<open>return\<close> leaves of the thread's program only what was deferred, the \<open>Unlock\<close>.
  Of the values returned, that of \<open>setsize\<close> is recorded in \<open>t_result\<close>.
\<close>

datatype instr =
    Lock
  | Unlock
  | Guard_setsize
  | Call_Resize syscall_result Winsize
  | Guard_closed
  | Guard_console
  | Call_Destroy syscall_result
  | Set_InvalidHandle
  | Set_closed
  | File_Close "osfile option"

record thread =
  t_prog :: "instr list"
  t_result :: "error option option"

text \<open>
  The state of a run: the pair, the holder of its mutex, the world, and the threads. The flag
  \<open>cfg_stale\<close> is raised when a resize call is issued for a handle whose console is no longer
  alive on the host.
\<close>

record config =
  cfg_pty :: conPty
  cfg_mutex :: "nat option"
  cfg_world :: world
  cfg_threads :: "thread list"
  cfg_stale :: bool

definition deferred :: "instr list \<Rightarrow> instr list" where
  "deferred rest = filter (\<lambda>i. i = Unlock) rest"

definition set_thread :: "nat \<Rightarrow> thread \<Rightarrow> config \<Rightarrow> config" where
  "set_thread tid t c = c\<lparr>cfg_threads := (cfg_threads c)[tid := t]\<rparr>"

fun exec :: "nat \<Rightarrow> instr \<Rightarrow> instr list \<Rightarrow> thread \<Rightarrow> config \<Rightarrow> config option" where
  "exec tid Lock rest t c =
     (if cfg_mutex c = None
      then Some (set_thread tid (t\<lparr>t_prog := rest\<rparr>) (c\<lparr>cfg_mutex := Some tid\<rparr>))
      else None)"
| "exec tid Unlock rest t c =
     Some (set_thread tid (t\<lparr>t_prog := rest\<rparr>) (c\<lparr>cfg_mutex := None\<rparr>))"
| "exec tid Guard_setsize rest t c =
     (if closed (cfg_pty c) \<or> console (cfg_pty c) = InvalidHandle
      then Some (set_thread tid (t\<lparr>t_prog := deferred rest, t_result := Some (Some ErrClosed)\<rparr>) c)
      else Some (set_thread tid (t\<lparr>t_prog := rest\<rparr>) c))"
| "exec tid (Call_Resize answer sz) rest t c =
     Some (set_thread tid
             (t\<lparr>t_prog := rest,
                t_result := Some (if fst answer \<noteq> S_OK then snd answer else None)\<rparr>)
             (c\<lparr>cfg_world := issue (ResizePseudoConsole (console (cfg_pty c))
                                      (coord_uint32 (Cols sz) (Rows sz))) (cfg_world c),
                cfg_stale := (cfg_stale c \<or> console (cfg_pty c) \<notin> consoles (cfg_world c))\<rparr>))"
| "exec tid Guard_closed rest t c =
     (if closed (cfg_pty c) then Some (set_thread tid (t\<lparr>t_prog := deferred rest\<rparr>) c)
      else Some (set_thread tid (t\<lparr>t_prog := rest\<rparr>) c))"
| "exec tid Guard_console rest t c =
     (if console (cfg_pty c) \<noteq> InvalidHandle then Some (set_thread tid (t\<lparr>t_prog := rest\<rparr>) c)
      else Some (set_thread tid (t\<lparr>t_prog := drop 2 rest\<rparr>) c))"
| "exec tid (Call_Destroy answer) rest t c =
     (let w1 = issue (ClosePseudoConsole (console (cfg_pty c))) (cfg_world c) in
      if winerrorFailed (fst answer)
      then Some (set_thread tid (t\<lparr>t_prog := deferred rest\<rparr>) (c\<lparr>cfg_world := w1\<rparr>))
      else Some (set_thread tid (t\<lparr>t_prog := rest\<rparr>)
                   (c\<lparr>cfg_world := w1\<lparr>consoles := consoles w1 - {console (cfg_pty c)}\<rparr>\<rparr>)))"
| "exec tid Set_InvalidHandle rest t c =
     Some (set_thread tid (t\<lparr>t_prog := rest\<rparr>)
             (c\<lparr>cfg_pty := (cfg_pty c)\<lparr>console := InvalidHandle\<rparr>\<rparr>))"
| "exec tid Set_closed rest t c =
     Some (set_thread tid (t\<lparr>t_prog := rest\<rparr>) (c\<lparr>cfg_pty := (cfg_pty c)\<lparr>closed := True\<rparr>\<rparr>))"
| "exec tid (File_Close f) rest t c =
     Some (set_thread tid (t\<lparr>t_prog := rest\<rparr>) (c\<lparr>cfg_world := file_closed f (cfg_world c)\<rparr>))"

text \<open>
  One turn of the thread \<open>tid\<close>; \<open>None\<close> when it has finished or waits for the mutex. A
  schedule is the list of the threads that take the turns.
\<close>

definition step :: "nat \<Rightarrow> config \<Rightarrow> config option" where
  "step tid c =
     (if tid < length (cfg_threads c)
      then (case t_prog (cfg_threads c ! tid) of
              [] \<Rightarrow> None
            | i # rest \<Rightarrow> exec tid i rest (cfg_threads c ! tid) c)
      else None)"

fun run :: "nat list \<Rightarrow> config \<Rightarrow> config option" where
  "run [] c = Some c"
| "run (tid # schedule) c = (case step tid c of None \<Rightarrow> None | Some c1 \<Rightarrow> run schedule c1)"

text \<open>The programs of \<open>setsize\<close>, \<open>closeConsoleNoLock\<close>, \<open>conPty.Close\<close>, \<open>conFile.Close\<close> and of
  the function that \<open>waitInternal\<close> defers.\<close>

definition setsize_prog :: "syscall_result \<Rightarrow> Winsize \<Rightarrow> instr list" where
  "setsize_prog answer sz = [Lock, Guard_setsize, Call_Resize answer sz, Unlock]"

definition closeConsoleNoLock_prog :: "syscall_result \<Rightarrow> instr list" where
  "closeConsoleNoLock_prog answer = [Guard_console, Call_Destroy answer, Set_InvalidHandle]"

definition conPty_Close_prog :: "conPty \<Rightarrow> syscall_result \<Rightarrow> instr list" where
  "conPty_Close_prog p answer =
     [Lock, Guard_closed] @ closeConsoleNoLock_prog answer @
     [Set_closed, File_Close (pw p), File_Close (consoler p), File_Close (consolew p),
      File_Close (pr p), Unlock]"

definition conFile_Close_prog :: "conFile \<Rightarrow> syscall_result \<Rightarrow> instr list" where
  "conFile_Close_prog f answer =
     [File_Close (cf_r f), File_Close (cf_w f)] @
     (if cf_master f then closeConsoleNoLock_prog answer else [])"

definition teardown_prog :: "syscall_result \<Rightarrow> instr list" where
  "teardown_prog answer = [Lock] @ closeConsoleNoLock_prog answer @ [Unlock]"

definition start_run :: "conPty \<Rightarrow> world \<Rightarrow> instr list list \<Rightarrow> config" where
  "start_run p w progs =
     \<lparr>cfg_pty = p, cfg_mutex = None, cfg_world = w,
      cfg_threads = map (\<lambda>prog. \<lparr>t_prog = prog, t_result = None\<rparr>) progs, cfg_stale = False\<rparr>"

definition size0 :: Winsize where
  "size0 = \<lparr>Rows = 24, Cols = 80, X = 0, Y = 0\<rparr>"

section \<open>Properties of the environment merge\<close>

lemma filter_nth_idx: "filter P xs = map ((!) xs) (filter (\<lambda>i. P (xs ! i)) [0..<length xs])"
proof (induction xs rule: rev_induct)
  case Nil
  show ?case by simp
next
  case (snoc x xs)
  have a: "filter (\<lambda>i. P ((xs @ [x]) ! i)) [0..<length xs] = filter (\<lambda>i. P (xs ! i)) [0..<length xs]"
    by (rule filter_cong) (auto simp: nth_append)
  have b: "map ((!) (xs @ [x])) (filter (\<lambda>i. P (xs ! i)) [0..<length xs])
         = map ((!) xs) (filter (\<lambda>i. P (xs ! i)) [0..<length xs])"
    by (rule map_cong) (auto simp: nth_append)
  have "filter P (xs @ [x]) = filter P xs @ (if P x then [x] else [])" by simp
  also have "filter P xs = map ((!) xs) (filter (\<lambda>i. P (xs ! i)) [0..<length xs])" by (rule snoc)
  finally show ?case by (simp add: a b)
qed

lemma filter_single_idx: "i < n \<Longrightarrow> filter (\<lambda>j. j = i) [0..<n] = [i]"
proof (induction n)
  case 0 then show ?case by simp
next
  case (Suc n)
  show ?case
  proof (cases "i = n")
    case True
    have "filter (\<lambda>j. j = n) [0..<n] = []" by (simp add: filter_empty_conv)
    with True show ?thesis by simp
  next
    case False
    with Suc have "filter (\<lambda>j. j = i) [0..<n] = [i]" by simp
    with False show ?thesis by simp
  qed
qed

lemma saw_invD1: "saw_inv L ci out saw \<Longrightarrow> saw k = Some i \<Longrightarrow> i < length out \<and> entry_key L ci (out ! i) = Some k"
  unfolding saw_inv_def by blast

lemma saw_invD2: "saw_inv L ci out saw \<Longrightarrow> i < length out \<Longrightarrow> entry_key L ci (out ! i) = Some k \<Longrightarrow> saw k = Some i"
  unfolding saw_inv_def by blast

lemma saw_inv_filter:
  assumes "saw_inv L ci out saw"
  shows "filter (\<lambda>kv. entry_key L ci kv = Some k) out =
           (case saw k of None \<Rightarrow> [] | Some i \<Rightarrow> [out ! i])"
proof (cases "saw k")
  case None
  have "\<forall>kv\<in>set out. entry_key L ci kv \<noteq> Some k"
  proof
    fix kv assume "kv \<in> set out"
    then obtain i where "i < length out" "out ! i = kv" by (auto simp: in_set_conv_nth)
    with saw_invD2 [OF assms, of i k] None show "entry_key L ci kv \<noteq> Some k" by auto
  qed
  then show ?thesis using None by (simp add: filter_empty_conv)
next
  case (Some i)
  note i = saw_invD1 [OF assms Some]
  have "(entry_key L ci (out ! j) = Some k) = (j = i)" if "j < length out" for j
  proof
    assume "entry_key L ci (out ! j) = Some k"
    with saw_invD2 [OF assms that] have "saw k = Some j" by simp
    with Some show "j = i" by simp
  next
    assume "j = i"
    with i show "entry_key L ci (out ! j) = Some k" by simp
  qed
  then have "filter (\<lambda>j. entry_key L ci (out ! j) = Some k) [0..<length out]
        = filter (\<lambda>j. j = i) [0..<length out]"
    by (intro filter_cong) auto
  also have "\<dots> = [i]" using i by (simp add: filter_single_idx)
  finally have m: "map ((!) out) (filter (\<lambda>j. entry_key L ci (out ! j) = Some k) [0..<length out]) = [out ! i]"
    by simp
  have "filter (\<lambda>kv. entry_key L ci kv = Some k) out =
        map ((!) out) (filter (\<lambda>j. entry_key L ci (out ! j) = Some k) [0..<length out])"
    by (rule filter_nth_idx)
  with m show ?thesis using Some by simp
qed


lemma loop_nokey:
  "entry_key L ci kv = None \<Longrightarrow>
   dedupEnvCase_loop L ci (kv # env) out saw = dedupEnvCase_loop L ci env (out @ [kv]) saw"
  by (simp add: entry_key_def split: option.splits)

lemma loop_dup:
  "entry_key L ci kv = Some k \<Longrightarrow> saw k = Some i \<Longrightarrow>
   dedupEnvCase_loop L ci (kv # env) out saw = dedupEnvCase_loop L ci env (out[i := kv]) saw"
  by (auto simp: entry_key_def Let_def split: option.splits)

lemma loop_new:
  "entry_key L ci kv = Some k \<Longrightarrow> saw k = None \<Longrightarrow>
   dedupEnvCase_loop L ci (kv # env) out saw =
   dedupEnvCase_loop L ci env (out @ [kv]) (saw(k \<mapsto> length out))"
  by (auto simp: entry_key_def Let_def split: option.splits)

lemma saw_invI:
  assumes "\<And>k i. saw k = Some i \<Longrightarrow> i < length out \<and> entry_key L ci (out ! i) = Some k"
    and "\<And>i k. i < length out \<Longrightarrow> entry_key L ci (out ! i) = Some k \<Longrightarrow> saw k = Some i"
  shows "saw_inv L ci out saw"
  unfolding saw_inv_def using assms by blast

lemma saw_inv_nokey:
  assumes inv: "saw_inv L ci out saw" and kv: "entry_key L ci kv = None"
  shows "saw_inv L ci (out @ [kv]) saw"
proof (rule saw_invI)
  fix k i assume "saw k = Some i"
  from saw_invD1 [OF inv this]
  show "i < length (out @ [kv]) \<and> entry_key L ci ((out @ [kv]) ! i) = Some k"
    by (simp add: nth_append)
next
  fix i k assume i: "i < length (out @ [kv])" and k: "entry_key L ci ((out @ [kv]) ! i) = Some k"
  show "saw k = Some i"
  proof (cases "i < length out")
    case True
    with k have "entry_key L ci (out ! i) = Some k" by (simp add: nth_append)
    with saw_invD2 [OF inv True] show ?thesis by simp
  next
    case False
    with i have "i = length out" by simp
    with k kv show ?thesis by simp
  qed
qed

lemma saw_inv_new:
  assumes inv: "saw_inv L ci out saw" and kv: "entry_key L ci kv = Some k'" and new: "saw k' = None"
  shows "saw_inv L ci (out @ [kv]) (saw(k' \<mapsto> length out))"
proof (rule saw_invI)
  fix k i assume s: "(saw(k' \<mapsto> length out)) k = Some i"
  show "i < length (out @ [kv]) \<and> entry_key L ci ((out @ [kv]) ! i) = Some k"
  proof (cases "k = k'")
    case True
    with s have "i = length out" by simp
    with kv True show ?thesis by simp
  next
    case False
    with s have "saw k = Some i" by simp
    from saw_invD1 [OF inv this] show ?thesis by (simp add: nth_append)
  qed
next
  fix i k assume i: "i < length (out @ [kv])" and k: "entry_key L ci ((out @ [kv]) ! i) = Some k"
  show "(saw(k' \<mapsto> length out)) k = Some i"
  proof (cases "i < length out")
    case True
    with k have "entry_key L ci (out ! i) = Some k" by (simp add: nth_append)
    with saw_invD2 [OF inv True] have "saw k = Some i" by simp
    moreover from this new have "k \<noteq> k'" by auto
    ultimately show ?thesis by simp
  next
    case False
    with i have "i = length out" by simp
    with k kv show ?thesis by simp
  qed
qed

lemma saw_inv_dup:
  assumes inv: "saw_inv L ci out saw" and kv: "entry_key L ci kv = Some k'" and dup: "saw k' = Some d"
  shows "saw_inv L ci (out[d := kv]) saw"
proof (rule saw_invI)
  note d = saw_invD1 [OF inv dup]
  fix k i assume s: "saw k = Some i"
  note si = saw_invD1 [OF inv s]
  show "i < length (out[d := kv]) \<and> entry_key L ci (out[d := kv] ! i) = Some k"
  proof (cases "i = d")
    case True
    with s si d have "k = k'" by simp
    with True kv d show ?thesis by simp
  next
    case False
    with si show ?thesis by simp
  qed
next
  note d = saw_invD1 [OF inv dup]
  fix i k assume i: "i < length (out[d := kv])" and k: "entry_key L ci (out[d := kv] ! i) = Some k"
  show "saw k = Some i"
  proof (cases "i = d")
    case True
    with k d kv have "k = k'" by simp
    with True dup show ?thesis by simp
  next
    case False
    with k have "entry_key L ci (out ! i) = Some k" by simp
    with saw_invD2 [OF inv, of i k] i show ?thesis by simp
  qed
qed

lemma filter_update_other:
  assumes inv: "saw_inv L ci out saw" and kv: "entry_key L ci kv = Some k'" and dup: "saw k' = Some d"
    and ne: "k' \<noteq> k"
  shows "filter (\<lambda>e. entry_key L ci e = Some k) (out[d := kv]) = filter (\<lambda>e. entry_key L ci e = Some k) out"
proof -
  note inv' = saw_inv_dup [OF inv kv dup]
  show ?thesis
  proof (cases "saw k")
    case None
    then show ?thesis by (simp add: saw_inv_filter [OF inv] saw_inv_filter [OF inv'])
  next
    case (Some j)
    from saw_invD1 [OF inv Some] saw_invD1 [OF inv dup] ne have "j \<noteq> d" by auto
    with Some show ?thesis by (simp add: saw_inv_filter [OF inv] saw_inv_filter [OF inv'])
  qed
qed

lemma filter_update_same:
  assumes inv: "saw_inv L ci out saw" and kv: "entry_key L ci kv = Some k" and dup: "saw k = Some d"
  shows "filter (\<lambda>e. entry_key L ci e = Some k) (out[d := kv]) = [kv]"
  using saw_invD1 [OF inv dup] dup
  by (simp add: saw_inv_filter [OF saw_inv_dup [OF inv kv dup]])

lemma dedupEnvCase_loop_filter:
  "saw_inv L ci out saw \<Longrightarrow>
   filter (\<lambda>e. entry_key L ci e = Some k) (dedupEnvCase_loop L ci env out saw) =
     (case filter (\<lambda>e. entry_key L ci e = Some k) env of
        [] \<Rightarrow> filter (\<lambda>e. entry_key L ci e = Some k) out
      | x # xs \<Rightarrow> [last (x # xs)])"
proof (induction env arbitrary: out saw)
  case Nil
  show ?case by simp
next
  case (Cons kv env)
  note inv = Cons.prems
  show ?case
  proof (cases "entry_key L ci kv")
    case None
    note step = loop_nokey [OF None, of env out saw]
    note ih = Cons.IH [OF saw_inv_nokey [OF inv None]]
    show ?thesis unfolding step ih using None by (simp split: list.splits)
  next
    case (Some k')
    note kv = this
    show ?thesis
    proof (cases "saw k'")
      case None
      note new = this
      note step = loop_new [where saw = saw, OF kv new, of env out]
      note ih = Cons.IH [OF saw_inv_new [OF inv kv new]]
      show ?thesis
      proof (cases "k' = k")
        case True
        with new have "filter (\<lambda>e. entry_key L ci e = Some k) out = []"
          by (simp add: saw_inv_filter [OF inv])
        then show ?thesis unfolding step ih using True kv by (simp split: list.splits)
      next
        case False
        then show ?thesis unfolding step ih using kv by (simp split: list.splits)
      qed
    next
      case (Some d)
      note dup = this
      note step = loop_dup [where saw = saw, OF kv dup, of env out]
      note ih = Cons.IH [OF saw_inv_dup [OF inv kv dup]]
      show ?thesis
      proof (cases "k' = k")
        case True
        with filter_update_same [OF inv kv dup] show ?thesis
          unfolding step ih using kv by (simp split: list.splits)
      next
        case False
        with filter_update_other [OF inv kv dup False] show ?thesis
          unfolding step ih using kv by (simp split: list.splits)
      qed
    qed
  qed
qed

lemma saw_inv_empty: "saw_inv L ci [] Map.empty"
  by (simp add: saw_inv_def)

lemma dedupEnvCase_last_wins:
  "filter (\<lambda>kv. entry_key L True kv = Some k) (dedupEnvCase L True env) =
     (case filter (\<lambda>kv. entry_key L True kv = Some k) env of
        [] \<Rightarrow> [] | x # xs \<Rightarrow> [last (x # xs)])"
  using dedupEnvCase_loop_filter [OF saw_inv_empty, of L True k env]
  by (simp add: dedupEnvCase_def split: list.splits)

lemma addCriticalEnv_loop_iff:
  "addCriticalEnv_loop F env \<longleftrightarrow> (\<exists>kv\<in>set env. entry_for F ''SYSTEMROOT'' kv)"
  by (induction env) (auto simp: entry_for_def split: option.splits)

text \<open>
  Claim C5. For the entries \<open>A=1\<close>, \<open>a=2\<close>, \<open>B=3\<close>, the environment forwarded by
  \<open>addCriticalEnv(dedupEnvCase(true, env))\<close> has exactly one entry whose key folds to \<open>A\<close>,
  with the value \<open>2\<close>, exactly one for \<open>B\<close>, with the value \<open>3\<close>, and a synthesized
  \<open>SYSTEMROOT\<close> entry; of the library functions this uses only what they do on ASCII strings.
  For every list and whatever the library functions are: \<open>SYSTEMROOT\<close> is appended exactly
  when no entry has a key that folds to it, and for every key \<open>k\<close> of the loop (the lowered
  text before \<open>=\<close>) the deduplicated list holds no entry with that key when the input has none,
  and otherwise exactly one, the last of the input's entries with that key.
\<close>

theorem env_merge_later_duplicate_wins:
  "(ascii_case_rules ToLower EqualFold \<longrightarrow>
      addCriticalEnv EqualFold Getenv (dedupEnvCase ToLower True [''A=1'', ''a=2'', ''B=3'']) =
        [''a=2'', ''B=3'', ''SYSTEMROOT='' @ Getenv ''SYSTEMROOT'']
      \<and> filter (entry_for EqualFold ''A'')
            (addCriticalEnv EqualFold Getenv (dedupEnvCase ToLower True [''A=1'', ''a=2'', ''B=3'']))
          = [''a=2'']
      \<and> filter (entry_for EqualFold ''B'')
            (addCriticalEnv EqualFold Getenv (dedupEnvCase ToLower True [''A=1'', ''a=2'', ''B=3'']))
          = [''B=3'']
      \<and> filter (entry_for EqualFold ''SYSTEMROOT'')
            (addCriticalEnv EqualFold Getenv (dedupEnvCase ToLower True [''A=1'', ''a=2'', ''B=3'']))
          = [''SYSTEMROOT='' @ Getenv ''SYSTEMROOT''])
   \<and> addCriticalEnv EqualFold Getenv env =
       (if \<exists>kv \<in> set env. entry_for EqualFold ''SYSTEMROOT'' kv then env
        else env @ [''SYSTEMROOT='' @ Getenv ''SYSTEMROOT''])
   \<and> filter (\<lambda>kv. entry_key ToLower True kv = Some k) (dedupEnvCase ToLower True env) =
       (case filter (\<lambda>kv. entry_key ToLower True kv = Some k) env of
          [] \<Rightarrow> [] | x # xs \<Rightarrow> [last (x # xs)])"
proof (intro conjI impI)
  assume rules: "ascii_case_rules ToLower EqualFold"
  have lower: "ToLower s = ascii_lower s" if "ascii_string s" for s
    using rules that by (simp add: ascii_case_rules_def)
  have fold: "EqualFold s t = (ascii_lower s = ascii_lower t)"
    if "ascii_string s" "ascii_string t" for s t
    using rules that by (simp add: ascii_case_rules_def)
  have lA: "ToLower ''A'' = ''a''" and la: "ToLower ''a'' = ''a''" and lB: "ToLower ''B'' = ''b''"
    by (simp_all add: lower ascii_string_def ascii_lower_def ascii_lower_char_def)
  have ex: "dedupEnvCase ToLower True [''A=1'', ''a=2'', ''B=3''] = [''a=2'', ''B=3'']"
    by (simp add: dedupEnvCase_def Index_eq_def lA la lB)
  have f1: "\<not> EqualFold ''a'' ''SYSTEMROOT''" "\<not> EqualFold ''B'' ''SYSTEMROOT''"
    "EqualFold ''SYSTEMROOT'' ''SYSTEMROOT''"
    "EqualFold ''a'' ''A''" "\<not> EqualFold ''B'' ''A''" "\<not> EqualFold ''SYSTEMROOT'' ''A''"
    "\<not> EqualFold ''a'' ''B''" "EqualFold ''B'' ''B''" "\<not> EqualFold ''SYSTEMROOT'' ''B''"
    by (simp_all add: fold ascii_string_def ascii_lower_def ascii_lower_char_def)
  have add: "addCriticalEnv EqualFold Getenv [''a=2'', ''B=3''] =
               [''a=2'', ''B=3'', ''SYSTEMROOT='' @ Getenv ''SYSTEMROOT'']"
    by (simp add: addCriticalEnv_def Index_eq_def f1)
  show "addCriticalEnv EqualFold Getenv (dedupEnvCase ToLower True [''A=1'', ''a=2'', ''B=3'']) =
        [''a=2'', ''B=3'', ''SYSTEMROOT='' @ Getenv ''SYSTEMROOT'']"
    by (simp only: ex add)
  show "filter (entry_for EqualFold ''A'')
            (addCriticalEnv EqualFold Getenv (dedupEnvCase ToLower True [''A=1'', ''a=2'', ''B=3'']))
          = [''a=2'']"
    unfolding ex add by (simp add: entry_for_def Index_eq_def f1)
  show "filter (entry_for EqualFold ''B'')
            (addCriticalEnv EqualFold Getenv (dedupEnvCase ToLower True [''A=1'', ''a=2'', ''B=3'']))
          = [''B=3'']"
    unfolding ex add by (simp add: entry_for_def Index_eq_def f1)
  show "filter (entry_for EqualFold ''SYSTEMROOT'')
            (addCriticalEnv EqualFold Getenv (dedupEnvCase ToLower True [''A=1'', ''a=2'', ''B=3'']))
          = [''SYSTEMROOT='' @ Getenv ''SYSTEMROOT'']"
    unfolding ex add by (simp add: entry_for_def Index_eq_def f1)
next
  show "addCriticalEnv EqualFold Getenv env =
       (if \<exists>kv \<in> set env. entry_for EqualFold ''SYSTEMROOT'' kv then env
        else env @ [''SYSTEMROOT='' @ Getenv ''SYSTEMROOT''])"
    by (simp add: addCriticalEnv_def addCriticalEnv_loop_iff)
next
  show "filter (\<lambda>kv. entry_key ToLower True kv = Some k) (dedupEnvCase ToLower True env) =
       (case filter (\<lambda>kv. entry_key ToLower True kv = Some k) env of
          [] \<Rightarrow> [] | x # xs \<Rightarrow> [last (x # xs)])"
    by (rule dedupEnvCase_last_wins)
qed

lemma ascii_case_rules_ascii:
  "ascii_case_rules ascii_lower (\<lambda>s t. ascii_lower s = ascii_lower t)"
  by (simp add: ascii_case_rules_def)

theorem env_merge_later_duplicate_wins_witness:
  "ascii_case_rules ascii_lower (\<lambda>s t. ascii_lower s = ascii_lower t)
   \<and> addCriticalEnv (\<lambda>s t. ascii_lower s = ascii_lower t) (\<lambda>_. ''C:/W'')
         (dedupEnvCase ascii_lower True [''A=1'', ''a=2'', ''B=3''])
       = [''a=2'', ''B=3'', ''SYSTEMROOT=C:/W'']
   \<and> addCriticalEnv (\<lambda>s t. ascii_lower s = ascii_lower t) (\<lambda>_. ''C:/W'')
         [''Path=x'', ''q'', ''PATH=y'']
       = [''Path=x'', ''q'', ''PATH=y'', ''SYSTEMROOT=C:/W'']
   \<and> filter (\<lambda>kv. entry_key ascii_lower True kv = Some ''path'')
         (dedupEnvCase ascii_lower True [''Path=x'', ''q'', ''PATH=y'']) = [''PATH=y'']"
proof -
  have a: "\<not> (\<exists>kv \<in> set [''Path=x'', ''q'', ''PATH=y''].
              entry_for (\<lambda>s t. ascii_lower s = ascii_lower t) ''SYSTEMROOT'' kv)"
    by (simp add: entry_for_def Index_eq_def ascii_lower_def ascii_lower_char_def)
  have b: "filter (\<lambda>kv. entry_key ascii_lower True kv = Some ''path'')
             [''Path=x'', ''q'', ''PATH=y''] = [''Path=x'', ''PATH=y'']"
    by (simp add: entry_key_def Index_eq_def ascii_lower_def ascii_lower_char_def)
  from env_merge_later_duplicate_wins [of ascii_lower "\<lambda>s t. ascii_lower s = ascii_lower t"
      "\<lambda>_. ''C:/W''" "[''Path=x'', ''q'', ''PATH=y'']" "''path''"]
    ascii_case_rules_ascii
  show ?thesis unfolding b using a by simp
qed

section \<open>Size operations\<close>

text \<open>
  Claim C9. For every \<open>File\<close> whose dynamic type is not the console-pty file type
  \<open>*conFile\<close>, \<open>Setsize\<close> returns \<open>ErrNotPty\<close> and \<open>GetsizeFull\<close> returns \<open>ErrUnsupported\<close>,
  neither touching the host; the two sentinels differ.
\<close>

theorem non_pty_file_rejected:
  "(\<forall>cf. f \<noteq> ConFile cf) \<Longrightarrow>
     Setsize sanswer f p sz w = Return (Some ErrNotPty, w)
   \<and> GetsizeFull ganswer f p w = Return (Inl ErrUnsupported, w)
   \<and> ErrNotPty \<noteq> ErrUnsupported"
  by (cases f) (simp_all add: Setsize_def GetsizeFull_def)

theorem non_pty_file_rejected_witness:
  "(\<forall>cf. OsFile 3 \<noteq> ConFile cf)
   \<and> Setsize (0, None) (OsFile 3) pair0 \<lparr>Rows = 24, Cols = 80, X = 0, Y = 0\<rparr> world1
       = Return (Some ErrNotPty, world1)
   \<and> GetsizeFull (Inr \<lparr>Left = 0, Top = 0, Right = 79, Bottom = 23\<rparr>) (OsFile 3) pair0 world1
       = Return (Inl ErrUnsupported, world1)"
  using non_pty_file_rejected [of "OsFile 3"] by simp




section \<open>The version probe of the allocator\<close>

text \<open>
  Claim C7, as the code has it: \<open>openPty\<close> asks the host for its version on every call.
  Whatever the host answers, a call adds exactly one probe to those issued before; nothing is
  cached between calls.
\<close>

theorem openPty_probes_every_call:
  "probe_calls (snd (openPty host w)) = Suc (probe_calls w)"
  by (auto simp: openPty_def probe_calls_def issue_def os_Pipe_def file_closed_def
      os_File_Close_def Let_def split: sum.splits prod.splits)

text \<open>
  Against claim C7 as stated (no probe on any call after the first): the second of two calls
  of the allocator issues a probe of its own.
\<close>

theorem probe_cached_counterexample:
  "probe_calls (snd (openPty host_ok (snd (openPty host_ok world0))))
     \<noteq> probe_calls (snd (openPty host_ok world0))"
  by (simp add: openPty_def probe_calls_def issue_def os_Pipe_def host_ok_def world0_def S_OK_def)

section \<open>Teardown of the pair\<close>

lemma openPty_host_ok: "openPty host_ok world0 = (Inr pair0, world1)"
  by (simp add: openPty_def host_ok_def world0_def pair0_def world1_def os_Pipe_def issue_def
      S_OK_def insert_commute)


lemma destroy_calls_issue:
  "destroy_calls (issue c w) = (if is_destroy c then Suc (destroy_calls w) else destroy_calls w)"
  by (simp add: destroy_calls_def issue_def)

lemma destroy_calls_file_closed [simp]: "destroy_calls (file_closed f w) = destroy_calls w"
  by (simp add: file_closed_def os_File_Close_def destroy_calls_def issue_def split: option.splits)

lemma destroy_calls_upd [simp]:
  "destroy_calls (w\<lparr>consoles := cs\<rparr>) = destroy_calls w"
  "destroy_calls (w\<lparr>open_files := fs\<rparr>) = destroy_calls w"
  by (simp_all add: destroy_calls_def)








section \<open>The cancellation watcher\<close>

text \<open>
  Claim C8. The steps of the watcher are exactly these two: when the process is done it may
  return, with the process record, the pair and the world as they were; when the cancellation
  signal has fired it may call \<open>Kill\<close>, which issues the kill of the process and nothing else,
  with the process record and the pair as they were. The kill leaves the host's files and
  consoles alone and is no destroy call. So once the signal has fired on a process that is not
  done, the watcher kills it and does nothing else, and when the process is done and the signal
  has not fired, the watcher does nothing at all. (When both channels are ready the
  \<open>select\<close> may take either branch.)
\<close>

theorem cancellation_kills_only:
  "(killOnContext answer ctx_done (p, pty, w) (p', pty', w') \<longleftrightarrow>
      (cmdDone p \<and> (p', pty', w') = (p, pty, w))
      \<or> (ctx_done \<and> (p', pty', w') = (p, pty, issue (ProcessKill (proc p)) w)))
   \<and> open_files (issue (ProcessKill (proc p)) w) = open_files w
   \<and> consoles (issue (ProcessKill (proc p)) w) = consoles w
   \<and> destroy_calls (issue (ProcessKill (proc p)) w) = destroy_calls w"
proof (intro conjI iffI)
  assume "killOnContext answer ctx_done (p, pty, w) (p', pty', w')"
  then show "(cmdDone p \<and> (p', pty', w') = (p, pty, w))
      \<or> (ctx_done \<and> (p', pty', w') = (p, pty, issue (ProcessKill (proc p)) w))"
    by (cases rule: killOnContext.cases) (simp_all add: winProc_Kill_def)
next
  assume "(cmdDone p \<and> (p', pty', w') = (p, pty, w))
      \<or> (ctx_done \<and> (p', pty', w') = (p, pty, issue (ProcessKill (proc p)) w))"
  then show "killOnContext answer ctx_done (p, pty, w) (p', pty', w')"
  proof
    assume "cmdDone p \<and> (p', pty', w') = (p, pty, w)"
    then show ?thesis by (simp add: killOnContext.process_done)
  next
    assume "ctx_done \<and> (p', pty', w') = (p, pty, issue (ProcessKill (proc p)) w)"
    then show ?thesis
      using killOnContext.cancelled [of ctx_done answer p pty w] by (simp add: winProc_Kill_def)
  qed
next
  show "open_files (issue (ProcessKill (proc p)) w) = open_files w"
    by (simp add: issue_def)
  show "consoles (issue (ProcessKill (proc p)) w) = consoles w"
    by (simp add: issue_def)
  show "destroy_calls (issue (ProcessKill (proc p)) w) = destroy_calls w"
    by (simp add: destroy_calls_issue)
qed

text \<open>
  At concrete inputs: the signal fires on a running process and the watcher's one step is the
  kill; the process is done and the signal has not fired, and the watcher's one step changes
  nothing, a kill being no step of it.
\<close>

theorem cancellation_kills_only_witness:
  "killOnContext None True (\<lparr>cmdDone = False, cmdErr = None, proc = 7\<rparr>, pair0, world1)
     (\<lparr>cmdDone = False, cmdErr = None, proc = 7\<rparr>, pair0, issue (ProcessKill 7) world1)
   \<and> \<not> killOnContext None True (\<lparr>cmdDone = False, cmdErr = None, proc = 7\<rparr>, pair0, world1)
     (\<lparr>cmdDone = False, cmdErr = None, proc = 7\<rparr>, pair0, world1)
   \<and> killOnContext None False (\<lparr>cmdDone = True, cmdErr = None, proc = 7\<rparr>, pair0, world1)
     (\<lparr>cmdDone = True, cmdErr = None, proc = 7\<rparr>, pair0, world1)
   \<and> \<not> killOnContext None False (\<lparr>cmdDone = True, cmdErr = None, proc = 7\<rparr>, pair0, world1)
     (\<lparr>cmdDone = True, cmdErr = None, proc = 7\<rparr>, pair0, issue (ProcessKill 7) world1)"
proof -
  have ne: "issue (ProcessKill 7) world1 \<noteq> world1"
    by (simp add: issue_def world1_def)
  note fired = cancellation_kills_only [of None True "\<lparr>cmdDone = False, cmdErr = None, proc = 7\<rparr>"
      pair0 world1]
  note idle = cancellation_kills_only [of None False "\<lparr>cmdDone = True, cmdErr = None, proc = 7\<rparr>"
      pair0 world1]
  show ?thesis using ne fired idle by simp
qed

section \<open>The process monitor\<close>

lemma wait_calls_issue:
  "wait_calls (issue c w) pid = (if c = ProcessWait pid then Suc (wait_calls w pid) else wait_calls w pid)"
  by (simp add: wait_calls_def issue_def)

lemma wait_calls_upd [simp]:
  "wait_calls (w\<lparr>consoles := cs\<rparr>) pid = wait_calls w pid"
  by (simp add: wait_calls_def)

text \<open>
  Against claim C2 as stated (nil on clean exit): the process exits with code 0 and the
  monitor's teardown of the console returns an error; \<open>Wait\<close> returns that error.
\<close>

theorem wait_clean_exit_counterexample:
  "windowsProcess_Wait (fst (waitProcess (Inr 0) (None, Some (Errno 6)) proc0 hpty0 world2))
     = Some (Some (Errno 6))"
  by (simp add: windowsProcess_Wait_def waitProcess_def winPtyConsoleCloser_def proc0_def
      hpty0_def world2_def InvalidHandle_def Let_def issue_def)

text \<open>
  Claim C2, amended. Before the monitor has finished, \<open>Wait\<close> is blocked. The monitor issues
  exactly one wait on the process and stores one outcome; from then on every \<open>Wait\<close> returns
  the stored outcome, and \<open>Wait\<close> itself issues no call. The outcome is the error of the
  wait, or an exit error with the exit code when that is not zero, or, on a clean exit, the
  error of the monitor's console teardown, which is nil when the teardown succeeded or was not
  needed. This holds for \<open>windowsProcess\<close> and for \<open>winProc\<close>.
\<close>

theorem wait_replays_stored_outcome:
  assumes "\<not> wp_cmdDone p" and "wp_cmdErr p = None" and "\<not> cmdDone q" and "cmdErr q = None"
  shows "windowsProcess_Wait p = None
       \<and> (\<exists>p' pty' w'. waitProcess wait_answer close_answer p pty w = (p', pty', w')
             \<and> wait_calls w' (wp_proc p) = Suc (wait_calls w (wp_proc p))
             \<and> windowsProcess_Wait p' = Some (wp_cmdErr p')
             \<and> wp_cmdErr p' =
                 (case wait_answer of
                    Inl err \<Rightarrow> Some err
                  | Inr code \<Rightarrow>
                      if code \<noteq> 0 then Some (ExitError code)
                      else if hp_handle pty = InvalidHandle then None
                      else case fst close_answer of Some err \<Rightarrow> Some err | None \<Rightarrow> snd close_answer))
       \<and> winProc_Wait q = None
       \<and> (\<exists>q' c' v'. waitInternal wait_answer canswer q c v = (q', c', v')
             \<and> wait_calls v' (proc q) = Suc (wait_calls v (proc q))
             \<and> winProc_Wait q' = Some (cmdErr q')
             \<and> cmdErr q' =
                 (case wait_answer of
                    Inl err \<Rightarrow> Some err
                  | Inr code \<Rightarrow>
                      if code \<noteq> 0 then Some (ExitError code)
                      else if console c \<noteq> InvalidHandle \<and> winerrorFailed (fst canswer)
                      then Some (Wrapped ''close pseudo console'' (snd canswer))
                      else None))"
proof (intro conjI)
  show "windowsProcess_Wait p = None"
    using assms by (simp add: windowsProcess_Wait_def)
  show "\<exists>p' pty' w'. waitProcess wait_answer close_answer p pty w = (p', pty', w')
             \<and> wait_calls w' (wp_proc p) = Suc (wait_calls w (wp_proc p))
             \<and> windowsProcess_Wait p' = Some (wp_cmdErr p')
             \<and> wp_cmdErr p' =
                 (case wait_answer of
                    Inl err \<Rightarrow> Some err
                  | Inr code \<Rightarrow>
                      if code \<noteq> 0 then Some (ExitError code)
                      else if hp_handle pty = InvalidHandle then None
                      else case fst close_answer of Some err \<Rightarrow> Some err | None \<Rightarrow> snd close_answer)"
    using assms
    by (auto simp: windowsProcess_Wait_def waitProcess_def winPtyConsoleCloser_def Let_def
        wait_calls_issue split: sum.splits option.splits)
  show "winProc_Wait q = None"
    using assms by (simp add: winProc_Wait_def)
  show "\<exists>q' c' v'. waitInternal wait_answer canswer q c v = (q', c', v')
             \<and> wait_calls v' (proc q) = Suc (wait_calls v (proc q))
             \<and> winProc_Wait q' = Some (cmdErr q')
             \<and> cmdErr q' =
                 (case wait_answer of
                    Inl err \<Rightarrow> Some err
                  | Inr code \<Rightarrow>
                      if code \<noteq> 0 then Some (ExitError code)
                      else if console c \<noteq> InvalidHandle \<and> winerrorFailed (fst canswer)
                      then Some (Wrapped ''close pseudo console'' (snd canswer))
                      else None)"
    using assms
    by (auto simp: winProc_Wait_def waitInternal_def closeConsoleNoLock_def Let_def
        wait_calls_issue split: sum.splits option.splits)
qed

theorem wait_replays_stored_outcome_witness:
  "\<not> wp_cmdDone proc0 \<and> wp_cmdErr proc0 = None
   \<and> \<not> cmdDone \<lparr>cmdDone = False, cmdErr = None, proc = 7\<rparr>
   \<and> cmdErr \<lparr>cmdDone = False, cmdErr = None, proc = 7\<rparr> = None
   \<and> windowsProcess_Wait proc0 = None
   \<and> (\<exists>p' pty' w'. waitProcess (Inr 3) (None, None) proc0 hpty0 world2 = (p', pty', w')
         \<and> wait_calls w' 7 = Suc (wait_calls world2 7)
         \<and> windowsProcess_Wait p' = Some (Some (ExitError 3)))
   \<and> (\<exists>q' c' v'. waitInternal (Inr 3) (1, None) \<lparr>cmdDone = False, cmdErr = None, proc = 7\<rparr>
            pair0 world1 = (q', c', v')
         \<and> winProc_Wait q' = Some (Some (ExitError 3)))"
proof -
  have a: "\<not> wp_cmdDone proc0" "wp_cmdErr proc0 = None" "wp_proc proc0 = 7"
    by (simp_all add: proc0_def)
  have b: "\<not> cmdDone \<lparr>cmdDone = False, cmdErr = None, proc = 7\<rparr>"
    "cmdErr \<lparr>cmdDone = False, cmdErr = None, proc = 7\<rparr> = None"
    by simp_all
  from wait_replays_stored_outcome [OF a(1,2) b, of "Inr 3" "(None, None)" hpty0 world2
      "(1, None)" pair0 world1] a b
  show ?thesis by auto
qed

section \<open>Release of resources when allocation fails\<close>

lemma open_files_file_closed: "open_files (file_closed f w) = (case f of None \<Rightarrow> open_files w | Some fd \<Rightarrow> open_files w - {fd})"
  by (auto simp: file_closed_def os_File_Close_def issue_def split: option.splits)

lemma consoles_file_closed [simp]: "consoles (file_closed f w) = consoles w"
  by (simp add: file_closed_def os_File_Close_def issue_def split: option.splits)

lemma open_files_issue [simp]: "open_files (issue c w) = open_files w"
  by (simp add: issue_def)

lemma consoles_issue [simp]: "consoles (issue c w) = consoles w"
  by (simp add: issue_def)

text \<open>
  Claim C4, at an input where the code does not do what the claim says. Both pipes and the
  pseudo console are created, then \<open>consoleW.Close()\<close> fails: \<open>open\<close> returns the error
  while the pipe ends 3, 5 and 6 are still open and the console session 16 is still alive.
\<close>

theorem open_leaks_when_close_fails:
  "open_closer open_host_closeW_fails world0 =
     (Inl (Wrapped ''failed to close pseudo console handle'' (Some (Errno 6))),
      \<lparr>open_files = {3, 5, 6}, consoles = {16},
       calls = [OsPipe, OsPipe, CreatePseudoConsole, FileClose 4]\<rparr>)"
  by (simp add: open_closer_def open_host_closeW_fails_def open_host_ok_def world0_def os_Pipe_def
      procCreatePseudoConsole_def os_File_Close_def issue_def Let_def insert_Diff_if insert_commute)

text \<open>
  The failures before that step do release what was opened: after them, no file is open that
  was not open before, and the consoles are as before. The allocator \<open>openPty\<close> does so on
  each of its failures.
\<close>

lemma open_closer_second_pipe_fails:
  "oh_pipe1 host = Inr (a, b) \<Longrightarrow> oh_pipe2 host = Inl err \<Longrightarrow>
   fst (open_closer host w) = Inl err
   \<and> open_files (snd (open_closer host w)) \<subseteq> open_files w
   \<and> consoles (snd (open_closer host w)) = consoles w"
  by (auto simp: open_closer_def os_Pipe_def open_files_file_closed)

lemma open_closer_create_fails:
  "oh_pipe1 host = Inr (a, b) \<Longrightarrow> oh_pipe2 host = Inr (c, d) \<Longrightarrow>
   fst (procCreatePseudoConsole (oh_find host) (oh_r0 host) (oh_console host) w') = Some err \<Longrightarrow>
   fst (open_closer host w) = Inl err
   \<and> open_files (snd (open_closer host w)) \<subseteq> open_files w
   \<and> consoles (snd (open_closer host w)) = consoles w"
  by (auto simp: open_closer_def os_Pipe_def open_files_file_closed procCreatePseudoConsole_def
      Let_def split: option.splits if_splits)

lemma openPty_failure_releases:
  "openPty host w = (Inl err, w') \<Longrightarrow> open_files w' \<subseteq> open_files w \<and> consoles w' = consoles w"
  by (auto simp: openPty_def os_Pipe_def open_files_file_closed Let_def
      split: if_splits sum.splits prod.splits)

section \<open>Failure of a launch\<close>

lemma windowExecCmd_Start_resources:
  "windowExecCmd_Start host c w = (err, c', started, w') \<Longrightarrow>
   open_files w' = open_files w \<and> consoles w' = consoles w"
  unfolding windowExecCmd_Start_def Let_def
  by (simp split: if_splits sum.splits option.splits; force)

lemma conPty_start_resources:
  "conPty_start host p cmd w = (err, cmd', started, watcher, w') \<Longrightarrow>
   open_files w' = open_files w \<and> consoles w' = consoles w"
  unfolding conPty_start_def Let_def
  by (simp split: if_splits sum.splits option.splits prod.splits; force)

lemma setsize_resources:
  "setsize answer p sz w = (err, w') \<Longrightarrow> open_files w' = open_files w \<and> consoles w' = consoles w"
  by (auto simp: setsize_def Let_def split: if_splits)

lemma open_closer_host_ok:
  "open_closer open_host_ok world0 =
     (Inr (hpty0, \<lparr>hp_handle = 16, hp_r = 5, hp_w = 4, hp_closer = TtyCloser,
                  hp_name = ''windows-pty''\<rparr>), world2)"
  by (simp add: open_closer_def open_host_ok_def world0_def os_Pipe_def hpty0_def world2_def
      procCreatePseudoConsole_def os_File_Close_def issue_def Let_def insert_Diff_if insert_commute)

text \<open>
  Against claim C3 as stated (every failure after allocation closes the pty): a start option
  fails; \<open>start\<close> returns the error together with the pty, whose pipe ends 3 and 6 are still
  open and whose console 16 is still alive.
\<close>

theorem start_option_failure_counterexample:
  "snd (fst (start_windows open_host_ok Start_host_ok (None, None) cmd0 [failing_option] world0))
     = Some (ErrorString ''bad size'')
   \<and> fst (fst (start_windows open_host_ok Start_host_ok (None, None) cmd0 [failing_option] world0))
     = Some hpty0
   \<and> open_files (snd (start_windows open_host_ok Start_host_ok (None, None) cmd0 [failing_option]
        world0)) = {3, 6}
   \<and> consoles (snd (start_windows open_host_ok Start_host_ok (None, None) cmd0 [failing_option]
        world0)) = {16}"
  by (simp add: start_windows_def open_closer_host_ok failing_option_def world2_def)

lemma handlePty_Close_releases:
  "handlePty_Close canswer p w = (cerr, p', w') \<Longrightarrow>
   hp_r p \<notin> open_files w' \<and> hp_w p \<notin> open_files w'
   \<and> (hp_closer p = PtyCloser \<and> fst canswer = None \<and> hp_handle p \<noteq> InvalidHandle \<longrightarrow>
        hp_handle p \<notin> consoles w')"
  by (auto simp: handlePty_Close_def winPtyCloser_def winTtyCloser_def winPtyConsoleCloser_def
      open_files_file_closed os_File_Close_def issue_def split: closer.splits if_splits option.splits)

text \<open>
  Claim C3, amended, for \<open>start\<close> on Windows and on the other platforms. When a start option
  fails, \<open>start\<close> returns that error together with the pty, which it leaves open for the
  caller: the world is as the failing option left it. When the options succeed and the spawn fails, \<open>start\<close>
  returns nil and the error, and the pty is closed before it returns: on Windows both pipe ends
  of the pty are closed, and its console is destroyed when the closing procedure was found; on
  the other platforms both pty and tty are closed.
\<close>

theorem start_failure_paths:
  "(open_closer ohost w0 = (Inr (pty, tty), w1) \<longrightarrow>
      (apply_opts opts_bad pty w1 = (Some err, pty1, w2) \<longrightarrow>
         start_windows ohost shost canswer c opts_bad w0 = ((Some pty1, Some err), w2))
    \<and> (apply_opts opts_ok pty w1 = (None, pty1', w2')
        \<and> fst (windowExecCmd_Start shost
                 \<lparr>we_cmd = (if ec_SysProcAttr c = None
                             then c\<lparr>ec_SysProcAttr := Some SysProcAttr_zero\<rparr> else c),
                  we_waitCalled = False, we_conPty = True\<rparr> w2') = Some err' \<longrightarrow>
         fst (start_windows ohost shost canswer c opts_ok w0) = (None, Some err')
         \<and> hp_r pty1' \<notin> open_files (snd (start_windows ohost shost canswer c opts_ok w0))
         \<and> hp_w pty1' \<notin> open_files (snd (start_windows ohost shost canswer c opts_ok w0))
         \<and> (hp_closer pty1' = PtyCloser \<and> fst canswer = None \<and> hp_handle pty1' \<noteq> InvalidHandle \<longrightarrow>
              hp_handle pty1' \<notin> consoles (snd (start_windows ohost shost canswer c opts_ok w0)))))
   \<and> (open_unix (uh_open uhost) v0 = (Inr (upty, utty), v1) \<longrightarrow>
      (apply_opts_unix uopts_bad upty v1 = (Some uerr, v2) \<longrightarrow>
         start_unix uhost uopts_bad v0 = ((Some upty, Some uerr), v2))
    \<and> (apply_opts_unix uopts_ok upty v1 = (None, v2') \<and> uh_Start uhost = Some uerr' \<longrightarrow>
         fst (start_unix uhost uopts_ok v0) = (None, Some uerr')
         \<and> upty \<notin> open_files (snd (start_unix uhost uopts_ok v0))
         \<and> utty \<notin> open_files (snd (start_unix uhost uopts_ok v0))))"
proof (intro conjI impI)
  assume "open_closer ohost w0 = (Inr (pty, tty), w1)"
    and "apply_opts opts_bad pty w1 = (Some err, pty1, w2)"
  then show "start_windows ohost shost canswer c opts_bad w0 = ((Some pty1, Some err), w2)"
    by (simp add: start_windows_def)
next
  let ?wc = "\<lparr>we_cmd = (if ec_SysProcAttr c = None
                             then c\<lparr>ec_SysProcAttr := Some SysProcAttr_zero\<rparr> else c),
                  we_waitCalled = False, we_conPty = True\<rparr>"
  assume a: "open_closer ohost w0 = (Inr (pty, tty), w1)"
    and b: "apply_opts opts_ok pty w1 = (None, pty1', w2')
        \<and> fst (windowExecCmd_Start shost ?wc w2') = Some err'"
  obtain wc1 started w3 where s: "windowExecCmd_Start shost ?wc w2' = (Some err', wc1, started, w3)"
    using b by (cases "windowExecCmd_Start shost ?wc w2'") auto
  obtain cerr pty2 w4 where cl: "handlePty_Close canswer pty1' w3 = (cerr, pty2, w4)"
    by (cases "handlePty_Close canswer pty1' w3") auto
  have r: "start_windows ohost shost canswer c opts_ok w0 = ((None, Some err'), w4)"
    using a b s cl by (simp add: start_windows_def Let_def)
  note rel = handlePty_Close_releases [OF cl]
  show "fst (start_windows ohost shost canswer c opts_ok w0) = (None, Some err')"
    using r by simp
  show "hp_r pty1' \<notin> open_files (snd (start_windows ohost shost canswer c opts_ok w0))"
    using r rel by simp
  show "hp_w pty1' \<notin> open_files (snd (start_windows ohost shost canswer c opts_ok w0))"
    using r rel by simp
  show "hp_handle pty1' \<notin> consoles (snd (start_windows ohost shost canswer c opts_ok w0))"
    if "hp_closer pty1' = PtyCloser \<and> fst canswer = None \<and> hp_handle pty1' \<noteq> InvalidHandle"
    using r rel that by simp
next
  assume "open_unix (uh_open uhost) v0 = (Inr (upty, utty), v1)"
    and "apply_opts_unix uopts_bad upty v1 = (Some uerr, v2)"
  then show "start_unix uhost uopts_bad v0 = ((Some upty, Some uerr), v2)"
    by (simp add: start_unix_def)
next
  assume a: "open_unix (uh_open uhost) v0 = (Inr (upty, utty), v1)"
    and b: "apply_opts_unix uopts_ok upty v1 = (None, v2') \<and> uh_Start uhost = Some uerr'"
  then have r: "start_unix uhost uopts_ok v0 =
      ((None, Some uerr'), file_closed (Some utty) (file_closed (Some upty) v2'))"
    by (simp add: start_unix_def)
  show "fst (start_unix uhost uopts_ok v0) = (None, Some uerr')" using r by simp
  show "upty \<notin> open_files (snd (start_unix uhost uopts_ok v0))"
    using r by (simp add: open_files_file_closed)
  show "utty \<notin> open_files (snd (start_unix uhost uopts_ok v0))"
    using r by (simp add: open_files_file_closed)
qed

lemma spawn_fails: "fst (windowExecCmd_Start Start_host_spawn_fails wcmd0 world2) = Some (Errno 2)"
  by (simp add: windowExecCmd_Start_def Start_host_spawn_fails_def Start_host_ok_def wcmd0_def
      cmd0_def SysProcAttr_zero_def UTF16PtrFromString_def Let_def)

lemma open_closer_host_ok': "open_closer open_host_ok world0 = (Inr (hpty0, htty0), world2)"
  by (simp add: open_closer_host_ok htty0_def)

theorem start_failure_paths_witness:
  "open_closer open_host_ok world0 = (Inr (hpty0, htty0), world2)
   \<and> apply_opts [failing_option] hpty0 world2 = (Some (ErrorString ''bad size''), hpty0, world2)
   \<and> apply_opts [] hpty0 world2 = (None, hpty0, world2)
   \<and> fst (windowExecCmd_Start Start_host_spawn_fails wcmd0 world2) = Some (Errno 2)
   \<and> hp_closer hpty0 = PtyCloser \<and> hp_handle hpty0 \<noteq> InvalidHandle
   \<and> open_unix (uh_open unix_host_spawn_fails) world0 = (Inr (3, 4), world3)
   \<and> apply_opts_unix [failing_option_unix] 3 world3 = (Some (ErrorString ''bad size''), world3)
   \<and> apply_opts_unix [] 3 world3 = (None, world3)
   \<and> uh_Start unix_host_spawn_fails = Some (Errno 2)
   \<and> start_windows open_host_ok Start_host_spawn_fails (None, None) cmd0 [failing_option] world0
       = ((Some hpty0, Some (ErrorString ''bad size'')), world2)
   \<and> fst (start_windows open_host_ok Start_host_spawn_fails (None, None) cmd0 [] world0)
       = (None, Some (Errno 2))
   \<and> 3 \<notin> open_files (snd (start_windows open_host_ok Start_host_spawn_fails (None, None) cmd0 []
        world0))
   \<and> 6 \<notin> open_files (snd (start_windows open_host_ok Start_host_spawn_fails (None, None) cmd0 []
        world0))
   \<and> 16 \<notin> consoles (snd (start_windows open_host_ok Start_host_spawn_fails (None, None) cmd0 []
        world0))
   \<and> start_unix unix_host_spawn_fails [failing_option_unix] world0
       = ((Some 3, Some (ErrorString ''bad size'')), world3)
   \<and> fst (start_unix unix_host_spawn_fails [] world0) = (None, Some (Errno 2))
   \<and> 3 \<notin> open_files (snd (start_unix unix_host_spawn_fails [] world0))
   \<and> 4 \<notin> open_files (snd (start_unix unix_host_spawn_fails [] world0))"
proof -
  have h1: "apply_opts [failing_option] hpty0 world2 = (Some (ErrorString ''bad size''), hpty0, world2)"
    by (simp add: failing_option_def)
  have h2: "apply_opts [] hpty0 world2 = (None, hpty0, world2)" by simp
  have h3: "fst (windowExecCmd_Start Start_host_spawn_fails
      \<lparr>we_cmd = (if ec_SysProcAttr cmd0 = None
                   then cmd0\<lparr>ec_SysProcAttr := Some SysProcAttr_zero\<rparr> else cmd0),
        we_waitCalled = False, we_conPty = True\<rparr> world2) = Some (Errno 2)"
    using spawn_fails by (simp add: wcmd0_def cmd0_def)
  have h4: "hp_closer hpty0 = PtyCloser" "hp_handle hpty0 \<noteq> InvalidHandle"
    "hp_r hpty0 = 3" "hp_w hpty0 = 6" "hp_handle hpty0 = 16"
    by (simp_all add: hpty0_def InvalidHandle_def)
  have u1: "open_unix (uh_open unix_host_spawn_fails) world0 = (Inr (3, 4), world3)"
    by (simp add: open_unix_def unix_host_spawn_fails_def world0_def world3_def insert_commute)
  have u2: "apply_opts_unix [failing_option_unix] 3 world3 = (Some (ErrorString ''bad size''), world3)"
    by (simp add: failing_option_unix_def)
  have u3: "apply_opts_unix [] 3 world3 = (None, world3)" by simp
  have u4: "uh_Start unix_host_spawn_fails = Some (Errno 2)"
    by (simp add: unix_host_spawn_fails_def)
  from start_failure_paths [where ohost = open_host_ok and ?w0.0 = world0 and pty = hpty0
      and tty = htty0 and ?w1.0 = world2 and opts_bad = "[failing_option]"
      and err = "ErrorString ''bad size''" and ?pty1.0 = hpty0 and ?w2.0 = world2
      and shost = Start_host_spawn_fails and canswer = "(None, None)" and c = cmd0
      and opts_ok = "[]" and pty1' = hpty0 and w2' = world2 and err' = "Errno 2"
      and uhost = unix_host_spawn_fails and ?v0.0 = world0 and upty = 3 and utty = 4
      and ?v1.0 = world3 and uopts_bad = "[failing_option_unix]"
      and uerr = "ErrorString ''bad size''" and ?v2.0 = world3 and uopts_ok = "[]"
      and v2' = world3 and uerr' = "Errno 2"]
    open_closer_host_ok' h1 h2 h3 h4 u1 u2 u3 u4
  show ?thesis using spawn_fails by simp
qed

text \<open>
  \<open>StartWithAttrs\<close>: the deferred function never closes the pty, since the variable it tests
  stays nil. After a failure of the resize or of the spawn, every file and the console that
  the allocation opened are still open, and no destroy call has been issued.
\<close>

lemma StartWithAttrs_deferred_nil:
  "StartWithAttrs_deferred None ans_r ans_w canswer f p w = Return (p, w)"
  by (simp add: StartWithAttrs_deferred_def)

lemma destroy_calls_setsize:
  "setsize answer p sz w = (err, w') \<Longrightarrow> destroy_calls w' = destroy_calls w"
  by (auto simp: setsize_def Let_def destroy_calls_issue split: if_splits)

lemma destroy_calls_conPty_start:
  "conPty_start host p cmd w = (err, cmd', started, watcher, w') \<Longrightarrow>
   destroy_calls w' = destroy_calls w"
  unfolding conPty_start_def Let_def
  by (simp split: if_splits sum.splits option.splits prod.splits; force simp: destroy_calls_issue)

lemma StartWithAttrs_failure_closes_nothing:
  assumes alloc: "openPty ohost w0 = (Inr winPty, w1)"
    and fails: "StartWithAttrs ohost sanswer shost ans_r ans_w canswer cmd sz w0 =
                  Return ((f, Some err), p, w')"
  shows "p = Some winPty \<and> open_files w' = open_files w1 \<and> consoles w' = consoles w1
       \<and> destroy_calls w' = destroy_calls w1"
proof -
  obtain e1 w2 where sz: "(case sz of None \<Rightarrow> (None, w1) | Some s \<Rightarrow> setsize sanswer winPty s w1) = (e1, w2)"
    by (cases "case sz of None \<Rightarrow> (None, w1) | Some s \<Rightarrow> setsize sanswer winPty s w1") auto
  have r2: "open_files w2 = open_files w1 \<and> consoles w2 = consoles w1
            \<and> destroy_calls w2 = destroy_calls w1"
    using sz setsize_resources destroy_calls_setsize by (cases sz) auto
  show ?thesis
  proof (cases e1)
    case (Some err1)
    with alloc fails sz r2 show ?thesis
      by (simp add: StartWithAttrs_def Let_def StartWithAttrs_deferred_nil)
  next
    case None
    obtain e2 cmd1 started watcher w3 where
      st: "conPty_start shost winPty cmd w2 = (e2, cmd1, started, watcher, w3)"
      by (cases "conPty_start shost winPty cmd w2") auto
    from conPty_start_resources [OF st] destroy_calls_conPty_start [OF st] r2
    have r3: "open_files w3 = open_files w1 \<and> consoles w3 = consoles w1
              \<and> destroy_calls w3 = destroy_calls w1" by simp
    from alloc fails sz None st r3 show ?thesis
      by (cases e2) (simp_all add: StartWithAttrs_def Let_def StartWithAttrs_deferred_nil)
  qed
qed


section \<open>Further examples\<close>

text \<open>A failing \<open>consoleR.Close()\<close> in \<open>open\<close> leaves the pipe ends 3 and 6 open and the
  console alive.\<close>

lemma open_leaks_when_second_close_fails:
  "open_closer open_host_closeR_fails world0 =
     (Inl (Wrapped ''failed to close pseudo console handle'' (Some (Errno 6))),
      \<lparr>open_files = {3, 6}, consoles = {16},
       calls = [OsPipe, OsPipe, CreatePseudoConsole, FileClose 4, FileClose 5]\<rparr>)"
  by (simp add: open_closer_def open_host_closeR_fails_def open_host_ok_def world0_def os_Pipe_def
      procCreatePseudoConsole_def os_File_Close_def issue_def Let_def insert_Diff_if insert_commute)

text \<open>
  \<open>conFile.Close\<close>, the \<open>Close\<close> of the file that \<open>open\<close> and \<open>StartWithAttrs\<close> hand out,
  takes no lock and does not look at \<open>closed\<close>: called twice, it issues one destroy call, and
  the second call returns the joined errors of closing the two closed pipe ends.
\<close>

lemma conFile_Close_twice_example:
  "conFile_Close_twice (1, None) (1, None) pair0 world1 =
     Return (None, Some (Joined [Joined [ErrFileClosed, ErrFileClosed]]),
             pair0\<lparr>console := InvalidHandle\<rparr>,
             \<lparr>open_files = {4, 5}, consoles = {},
              calls = [RtlGetVersion, OsPipe, OsPipe, CreatePseudoConsole, FileClose 3,
                       FileClose 6, ClosePseudoConsole 16]\<rparr>)"
  by (simp add: conFile_Close_twice_def conFile_Close_def ptyf_def pair0_def world1_def
      os_File_Close_def errors_Join_def List.map_filter_def closeConsoleNoLock_def
      winerrorFailed_def InvalidHandle_def issue_def Let_def insert_Diff_if insert_commute)

text \<open>A failing resize in \<open>StartWithAttrs\<close>: the error is returned, nothing is closed.\<close>

lemma StartWithAttrs_leak_example:
  "StartWithAttrs host_ok (1, Some (Errno 87)) conPty_start_host_ok None None (1, None) cmd1
     (Some \<lparr>Rows = 24, Cols = 80, X = 0, Y = 0\<rparr>) world0 =
     Return ((None, Some (Errno 87)), Some pair0,
             issue (ResizePseudoConsole 16 (coord_uint32 80 24)) world1)"
  by (simp add: StartWithAttrs_def openPty_host_ok StartWithAttrs_deferred_def setsize_def
      pair0_def InvalidHandle_def S_OK_def Let_def)

end
